theory Spec2Isabelle
  imports Main "HOL-Library.Word"
begin

section \<open>Go values: bytes, errors, panics\<close>

text \<open>
  The event hub of gohfc (\<^verbatim>\<open>event.go\<close>) is embedded function by function. A Go
  \<^verbatim>\<open>[]byte\<close> is a list of 8-bit words, \<^verbatim>\<open>uint64\<close> a 64-bit word, \<^verbatim>\<open>int32\<close> a
  32-bit word, and Go's \<^verbatim>\<open>int\<close> (a slice position) an \<open>int\<close>. An \<^verbatim>\<open>error\<close> value
  is either the sentinel \<^verbatim>\<open>io.EOF\<close> or any other error; \<^verbatim>\<open>nil\<close> is \<open>None\<close>.
  A run-time panic (a nil pointer dereference, a slice index out of range) is the left
  summand of the result: a function that panics returns no value.
\<close>

type_synonym byte = "8 word"
type_synonym bytes = "byte list"

datatype error = io_EOF | Err string

datatype panic = NilDereference | IndexOutOfRange

definition at_index :: "'a list \<Rightarrow> int \<Rightarrow> panic + 'a" where
  \<comment> \<open>Go's \<^verbatim>\<open>xs[i]\<close>: panics unless \<^verbatim>\<open>0 <= i < len(xs)\<close>.\<close>
  "at_index xs i =
     (if 0 \<le> i \<and> i < int (length xs) then Inr (xs ! nat i) else Inl IndexOutOfRange)"

section \<open>The protobuf messages the decoder reads\<close>

text \<open>
  Only the fields that \<^verbatim>\<open>event.go\<close> reads are kept. A field holding a pointer to an
  embedded message is an \<open>option\<close> (\<open>None\<close> is the nil pointer); a bytes, string or
  repeated field is a list (nil and empty are the same to the code).
\<close>

record Envelope =
  Envelope_Payload :: bytes

record Header =
  Header_ChannelHeader :: bytes

record Payload =
  Payload_Header :: "Header option"
  Payload_Data :: bytes

record ChannelHeader =
  ChannelHeader_Type :: "32 word"
  ChannelHeader_ChannelId :: string
  ChannelHeader_TxId :: string
  ChannelHeader_Extension :: bytes

record ChaincodeID =
  ChaincodeID_Name :: string
  ChaincodeID_Version :: string

record ChaincodeHeaderExtension =
  ChaincodeHeaderExtension_ChaincodeId :: "ChaincodeID option"

record TransactionAction =
  TransactionAction_Payload :: bytes

record Transaction =
  Transaction_Actions :: "TransactionAction list"

record ChaincodeEndorsedAction =
  ChaincodeEndorsedAction_ProposalResponsePayload :: bytes

record ChaincodeActionPayload =
  ChaincodeActionPayload_ChaincodeProposalPayload :: bytes
  ChaincodeActionPayload_Action :: "ChaincodeEndorsedAction option"

record ChaincodeProposalPayload =
  ChaincodeProposalPayload_Input :: bytes

record ChaincodeInput =
  ChaincodeInput_Args :: "bytes list"

record ChaincodeSpec =
  ChaincodeSpec_Input :: "ChaincodeInput option"

record ChaincodeInvocationSpec =
  ChaincodeInvocationSpec_ChaincodeSpec :: "ChaincodeSpec option"

record ProposalResponsePayload =
  ProposalResponsePayload_Extension :: bytes

record ChaincodeAction =
  ChaincodeAction_Events :: bytes

record ChaincodeEvent =
  ChaincodeEvent_EventName :: string
  ChaincodeEvent_Payload :: bytes

text \<open>
  \<^verbatim>\<open>proto.Unmarshal(buf, pb)\<close> belongs to the protobuf runtime, not to this package. It
  enters the model as a parameter: for each message type a function from the input bytes
  to the error it returns (\<open>None\<close> for nil) and the state it leaves in the freshly
  allocated message \<^verbatim>\<open>pb\<close>. Every theorem below that quantifies over \<open>c\<close> holds for
  any such runtime.
\<close>

record codec =
  Unmarshal_Envelope :: "bytes \<Rightarrow> error option \<times> Envelope"
  Unmarshal_Payload :: "bytes \<Rightarrow> error option \<times> Payload"
  Unmarshal_ChannelHeader :: "bytes \<Rightarrow> error option \<times> ChannelHeader"
  Unmarshal_ChaincodeHeaderExtension :: "bytes \<Rightarrow> error option \<times> ChaincodeHeaderExtension"
  Unmarshal_Transaction :: "bytes \<Rightarrow> error option \<times> Transaction"
  Unmarshal_ChaincodeActionPayload :: "bytes \<Rightarrow> error option \<times> ChaincodeActionPayload"
  Unmarshal_ChaincodeProposalPayload :: "bytes \<Rightarrow> error option \<times> ChaincodeProposalPayload"
  Unmarshal_ChaincodeInvocationSpec :: "bytes \<Rightarrow> error option \<times> ChaincodeInvocationSpec"
  Unmarshal_ProposalResponsePayload :: "bytes \<Rightarrow> error option \<times> ProposalResponsePayload"
  Unmarshal_ChaincodeAction :: "bytes \<Rightarrow> error option \<times> ChaincodeAction"
  Unmarshal_ChaincodeEvent :: "bytes \<Rightarrow> error option \<times> ChaincodeEvent"

section \<open>Constants and helpers of the vendored Fabric packages\<close>

text \<open>
  Modelled from the spec: the header type \<^verbatim>\<open>common.HeaderType_ENDORSER_TRANSACTION\<close>
  is declared in the vendored \<^verbatim>\<open>protos/common\<close> package, which is not among the
  sources; the spec names it "endorser-transaction". Its value in the protocol is 3.
\<close>

definition HeaderType_ENDORSER_TRANSACTION :: "32 word" where
  "HeaderType_ENDORSER_TRANSACTION = 3"

text \<open>
  Modelled from the spec: \<^verbatim>\<open>common.BlockMetadataIndex_TRANSACTIONS_FILTER\<close>, the
  position of the transaction-validation-flags array in a block's metadata, is declared
  in the vendored \<^verbatim>\<open>protos/common\<close> package. The spec says that the position the
  status is read from (2) "coincides with the transaction-validation-flags array".
\<close>

definition BlockMetadataIndex_TRANSACTIONS_FILTER :: int where
  "BlockMetadataIndex_TRANSACTIONS_FILTER = 2"

text \<open>
  Modelled from the spec: \<^verbatim>\<open>peer.TxValidationCode_VALID\<close> of the vendored
  \<^verbatim>\<open>protos/peer\<close> package. The spec: "validation-flag byte 0 (valid)".
\<close>

definition TxValidationCode_VALID :: byte where
  "TxValidationCode_VALID = 0"

text \<open>
  Modelled from the spec: \<^verbatim>\<open>util.TxValidationFlags\<close> of the vendored
  \<^verbatim>\<open>core/ledger/util\<close> package is a byte slice, one validation code per
  transaction; \<^verbatim>\<open>Flag\<close> reads the code at a position (an out-of-range position
  panics, as any slice read does).
\<close>

definition Flag :: "bytes \<Rightarrow> int \<Rightarrow> panic + byte" where
  "Flag obj txIndex = at_index obj txIndex"

text \<open>
  Modelled from the spec: \<^verbatim>\<open>TxValidationFlags.IsValid\<close> of the same package: "the
  validation-flag byte at \<^verbatim>\<open>txIndex\<close>" is the valid code.
\<close>

definition IsValid :: "bytes \<Rightarrow> int \<Rightarrow> panic + bool" where
  "IsValid obj txIndex =
     (case Flag obj txIndex of
        Inl p \<Rightarrow> Inl p
      | Inr f \<Rightarrow> Inr (f = TxValidationCode_VALID))"

section \<open>The decoded record\<close>

record CCEvent =
  EventName :: string
  EventPayload :: bytes

record BlockEventResponse =
  Error :: "error option"
  IsVaild :: bool
  BlockHeight :: "64 word"
  TxIndex :: int
  TxID :: string
  ChannelName :: string
  ChainCodeName :: string
  ChainCodeVersion :: string
  Status :: "32 word"
  ChainCodeInput :: "bytes list"
  CCEvents :: "CCEvent list"

definition BlockEventResponse_zero :: BlockEventResponse where
  \<comment> \<open>The composite literal \<^verbatim>\<open>BlockEventResponse{}\<close>: every field at its zero value.\<close>
  "BlockEventResponse_zero =
     \<lparr>Error = None, IsVaild = False, BlockHeight = 0, TxIndex = 0, TxID = [],
      ChannelName = [], ChainCodeName = [], ChainCodeVersion = [], Status = 0,
      ChainCodeInput = [], CCEvents = []\<rparr>"

section \<open>DecodeEventBlock\<close>

definition DecodeEventBlock_base ::
  "BlockEventResponse \<Rightarrow> 64 word \<Rightarrow> int \<Rightarrow> bytes list \<Rightarrow> ChannelHeader \<Rightarrow>
   ChaincodeHeaderExtension \<Rightarrow> panic + BlockEventResponse" where
  \<comment> \<open>Lines 161 to 171 of \<^verbatim>\<open>DecodeEventBlock\<close>: the fields taken from the arguments, the
      channel header and its extension.\<close>
  "DecodeEventBlock_base response blockNum idx metadata header ex =
     (case at_index metadata BlockMetadataIndex_TRANSACTIONS_FILTER of
        Inl p \<Rightarrow> Inl p
      | Inr txsFltr \<Rightarrow>
     (case IsValid txsFltr idx of
        Inl p \<Rightarrow> Inl p
      | Inr v \<Rightarrow>
     (let response1 = response\<lparr>IsVaild := v, BlockHeight := blockNum, TxIndex := idx,
            TxID := ChannelHeader_TxId header, ChannelName := ChannelHeader_ChannelId header\<rparr>;
          response2 =
            (case ChaincodeHeaderExtension_ChaincodeId ex of
               None \<Rightarrow> response1
             | Some cid \<Rightarrow> response1\<lparr>ChainCodeName := ChaincodeID_Name cid,
                             ChainCodeVersion := ChaincodeID_Version cid\<rparr>)
      in
     (case at_index metadata 2 of
        Inl p \<Rightarrow> Inl p
      | Inr m2 \<Rightarrow>
     (case at_index m2 idx of
        Inl p \<Rightarrow> Inl p
      | Inr b \<Rightarrow> Inr (response2\<lparr>Status := ucast b\<rparr>))))))"

definition DecodeEventBlock_endorser ::
  "codec \<Rightarrow> Payload \<Rightarrow> BlockEventResponse \<Rightarrow> panic + BlockEventResponse" where
  \<comment> \<open>Lines 173 to 224: the body of the branch taken for an endorser transaction.\<close>
  "DecodeEventBlock_endorser c payload response =
     (case Unmarshal_Transaction c (Payload_Data payload) of
        (Some err, tx) \<Rightarrow> Inr (response\<lparr>Error := Some err\<rparr>)
      | (None, tx) \<Rightarrow>
     (case at_index (Transaction_Actions tx) 0 of
        Inl p \<Rightarrow> Inl p
      | Inr action0 \<Rightarrow>
     (case Unmarshal_ChaincodeActionPayload c (TransactionAction_Payload action0) of
        (Some err, chainCodeActionPayload) \<Rightarrow> Inr (response\<lparr>Error := Some err\<rparr>)
      | (None, chainCodeActionPayload) \<Rightarrow>
     (case Unmarshal_ChaincodeProposalPayload c
             (ChaincodeActionPayload_ChaincodeProposalPayload chainCodeActionPayload) of
        (Some err, chaincodeProposalPayload) \<Rightarrow> Inr (response\<lparr>Error := Some err\<rparr>)
      | (None, chaincodeProposalPayload) \<Rightarrow>
     (case Unmarshal_ChaincodeInvocationSpec c
             (ChaincodeProposalPayload_Input chaincodeProposalPayload) of
        (Some err, chaincodeInvocationSpec) \<Rightarrow> Inr (response\<lparr>Error := Some err\<rparr>)
      | (None, chaincodeInvocationSpec) \<Rightarrow>
     (case Option.bind (ChaincodeInvocationSpec_ChaincodeSpec chaincodeInvocationSpec)
             ChaincodeSpec_Input of
        None \<Rightarrow> Inl NilDereference
      | Some input \<Rightarrow>
     (let response1 = response\<lparr>ChainCodeInput := ChaincodeInput_Args input\<rparr> in
     (case ChaincodeActionPayload_Action chainCodeActionPayload of
        None \<Rightarrow> Inl NilDereference
      | Some endorsed \<Rightarrow>
     (case Unmarshal_ProposalResponsePayload c
             (ChaincodeEndorsedAction_ProposalResponsePayload endorsed) of
        (Some err, propRespPayload) \<Rightarrow> Inr (response1\<lparr>Error := Some err\<rparr>)
      | (None, propRespPayload) \<Rightarrow>
     (case Unmarshal_ChaincodeAction c (ProposalResponsePayload_Extension propRespPayload) of
        (Some err, caPayload) \<Rightarrow> Inr (response1\<lparr>Error := Some err\<rparr>)
      | (None, caPayload) \<Rightarrow>
     (case Unmarshal_ChaincodeEvent c (ChaincodeAction_Events caPayload) of
        (Some err, ccEvent) \<Rightarrow> Inr (response1\<lparr>Error := Some err\<rparr>)
      | (None, ccEvent) \<Rightarrow>
          Inr (response1\<lparr>CCEvents := CCEvents response1 @
                 [\<lparr>EventName = ChaincodeEvent_EventName ccEvent,
                   EventPayload = ChaincodeEvent_Payload ccEvent\<rparr>]\<rparr>))))))))))))"

definition DecodeEventBlock ::
  "codec \<Rightarrow> bytes \<Rightarrow> 64 word \<Rightarrow> int \<Rightarrow> bytes list \<Rightarrow> panic + BlockEventResponse" where
  \<comment> \<open>Lines 139 to 227. A failed unmarshal of the payload (line 149) only records its error;
      line 152 then reads \<^verbatim>\<open>payload.Header.ChannelHeader\<close> through the pointer
      \<^verbatim>\<open>payload.Header\<close>, whatever the unmarshal has left there.\<close>
  "DecodeEventBlock c pl blockNum idx metadata =
     (let response = BlockEventResponse_zero in
     (case Unmarshal_Envelope c pl of
        (Some err, envelope) \<Rightarrow> Inr (response\<lparr>Error := Some err\<rparr>)
      | (None, envelope) \<Rightarrow>
     (case Unmarshal_Payload c (Envelope_Payload envelope) of (perr, payload) \<Rightarrow>
     (let response0 = (case perr of Some err \<Rightarrow> response\<lparr>Error := Some err\<rparr> | None \<Rightarrow> response) in
     (case Payload_Header payload of
        None \<Rightarrow> Inl NilDereference
      | Some hdr \<Rightarrow>
     (case Unmarshal_ChannelHeader c (Header_ChannelHeader hdr) of
        (Some err, header) \<Rightarrow> Inr (response0\<lparr>Error := Some err\<rparr>)
      | (None, header) \<Rightarrow>
     (case Unmarshal_ChaincodeHeaderExtension c (ChannelHeader_Extension header) of
        (Some err, ex) \<Rightarrow> Inr (response0\<lparr>Error := Some err\<rparr>)
      | (None, ex) \<Rightarrow>
     (case DecodeEventBlock_base response0 blockNum idx metadata header ex of
        Inl p \<Rightarrow> Inl p
      | Inr response5 \<Rightarrow>
          if ChannelHeader_Type header = HeaderType_ENDORSER_TRANSACTION
          then DecodeEventBlock_endorser c payload response5
          else Inr response5))))))))"


section \<open>The event stream\<close>

text \<open>
  The messages of the peer's event service, as far as \<^verbatim>\<open>event.go\<close> builds or inspects
  them. The one-of field \<^verbatim>\<open>Event.Event\<close> is a datatype; \<open>Event_Other\<close> stands for
  the kinds the reader's type switch has no case for (chaincode event, rejection,
  unregister, or an unset field).
\<close>

record BlockHeader =
  BlockHeader_Number :: "64 word"

record BlockData =
  BlockData_Data :: "bytes list"

record BlockMetadata =
  BlockMetadata_Metadata :: "bytes list"

record Block =
  Block_Header :: "BlockHeader option"
  Block_Data :: "BlockData option"
  Block_Metadata :: "BlockMetadata option"

datatype EventType =
  EventType_REGISTER | EventType_BLOCK | EventType_CHAINCODE | EventType_REJECTION
  | EventType_FILTEREDBLOCK

record Interest =
  Interest_EventType :: EventType

record Register =
  Register_Events :: "Interest list"

datatype isEvent_Event = Event_Register Register | Event_Block "Block option" | Event_Other

record Event =
  Event_Event :: isEvent_Event
  Event_Creator :: bytes

record SignedEvent =
  SignedEvent_Signature :: bytes
  SignedEvent_EventBytes :: bytes

record SerializedIdentity =
  SerializedIdentity_Mspid :: string
  SerializedIdentity_IdBytes :: bytes

record pem_Block =
  pem_Block_Type :: string
  pem_Block_Bytes :: bytes

record Certificate =
  Certificate_Raw :: bytes

text \<open>
  Modelled from the spec: the struct \<^verbatim>\<open>Identity\<close> is declared in another file of the
  package; the spec gives it a certificate and a private-key handle. Both pointers may be
  nil. The key is opaque to this code (\<^verbatim>\<open>interface{}\<close>), hence a type parameter.
\<close>

record 'k Identity =
  Identity_Certificate :: "Certificate option"
  Identity_PrivateKey :: 'k

text \<open>
  Modelled from the spec: the interface \<^verbatim>\<open>CryptoSuite\<close> is declared in another file of
  the package. Of its methods only \<^verbatim>\<open>Sign(msg, key)\<close> is called here; it returns a
  signature or an error.
\<close>

type_synonym 'k CryptoSuite = "bytes \<Rightarrow> 'k \<Rightarrow> error + bytes"

datatype CallOption = MaxCallRecvMsgSize nat | MaxCallSendMsgSize nat

datatype DialOption =
  WithBlock | WithTimeout nat | WithDefaultCallOptions "CallOption list" | OtherOption string

record Peer =
  Peer_Uri :: string
  Peer_Opts :: "DialOption list"

definition GRPC_MAX_SIZE :: nat where
  "GRPC_MAX_SIZE = 100 * 1024 * 1024"

text \<open>
  What lies outside the process is a parameter as well: whether dialling the peer and
  opening the chat stream succeed, whether a send on the stream succeeds, what the
  successive calls of \<^verbatim>\<open>Recv\<close> on the stream return (a list: when it is used up, the
  next \<^verbatim>\<open>Recv\<close> never returns), and the serialisers of the protobuf and PEM
  libraries.
\<close>

record net =
  grpc_Dial :: "string \<Rightarrow> DialOption list \<Rightarrow> error option"
  Events_Chat :: "error option"
  client_Send :: "SignedEvent \<Rightarrow> error option"
  client_Recv :: "(error + Event) list"
  Marshal_SerializedIdentity :: "SerializedIdentity \<Rightarrow> error + bytes"
  Marshal_Event :: "Event \<Rightarrow> error + bytes"
  pem_EncodeToMemory :: "pem_Block \<Rightarrow> bytes"

text \<open>
  The hub holds the connection and the stream client. Its state here: whether each has
  been set, and whether \<^verbatim>\<open>CloseSend\<close> and \<^verbatim>\<open>Close\<close> have been called on them.
\<close>

record eventHub =
  connection :: bool
  client :: bool
  client_sendClosed :: bool
  connection_closed :: bool

definition new_eventHub :: eventHub where
  "new_eventHub =
     \<lparr>connection = False, client = False, client_sendClosed = False, connection_closed = False\<rparr>"

text \<open>The calls that leave the process during registration, in the order they are made.\<close>

datatype 'k call = Sign_call bytes 'k | Send_call SignedEvent

section \<open>connect, register, disconnect\<close>

definition connect :: "net \<Rightarrow> Peer option \<Rightarrow> eventHub \<Rightarrow> (panic + error option) \<times> eventHub" where
  \<comment> \<open>The options appended to \<^verbatim>\<open>p.Opts\<close> are the ones dialled with; that they also stay in
      the caller's \<^verbatim>\<open>Peer\<close> is not kept. The context \<^verbatim>\<open>ctx\<close> only bounds the time of
      \<^verbatim>\<open>Chat\<close>, whose outcome is a parameter.\<close>
  "connect n p e =
     (case p of
        None \<Rightarrow> (Inl NilDereference, e)
      | Some peer \<Rightarrow>
     (let opts = Peer_Opts peer @
            [WithBlock, WithTimeout 5,
             WithDefaultCallOptions
               [MaxCallRecvMsgSize GRPC_MAX_SIZE, MaxCallSendMsgSize GRPC_MAX_SIZE]]
      in
     (case grpc_Dial n (Peer_Uri peer) opts of
        Some err \<Rightarrow> (Inr (Some err), e)
      | None \<Rightarrow>
     (let e1 = e\<lparr>connection := True\<rparr> in
     (case Events_Chat n of
        Some err \<Rightarrow> (Inr (Some err), e1)
      | None \<Rightarrow> (Inr None, e1\<lparr>client := True\<rparr>))))))"

definition register ::
  "net \<Rightarrow> string \<Rightarrow> 'k Identity option \<Rightarrow> 'k CryptoSuite \<Rightarrow> (panic + error option) \<times> 'k call list" where
  \<comment> \<open>Returns the error (or panic) and the calls of \<^verbatim>\<open>crypto.Sign\<close> and \<^verbatim>\<open>e.client.Send\<close>
      it has made, in order.\<close>
  "register n mspId identity crypto =
     (case identity of
        None \<Rightarrow> (Inl NilDereference, [])
      | Some ident \<Rightarrow>
     (case Identity_Certificate ident of
        None \<Rightarrow> (Inl NilDereference, [])
      | Some cert \<Rightarrow>
     (case Marshal_SerializedIdentity n
             \<lparr>SerializedIdentity_Mspid = mspId,
              SerializedIdentity_IdBytes = pem_EncodeToMemory n
                \<lparr>pem_Block_Type = ''CERTIFICATE'', pem_Block_Bytes = Certificate_Raw cert\<rparr>\<rparr> of
        Inl err \<Rightarrow> (Inr (Some err), [])
      | Inr creator \<Rightarrow>
     (let interest =
            \<lparr>Event_Event = Event_Register
               \<lparr>Register_Events = [\<lparr>Interest_EventType = EventType_BLOCK\<rparr>]\<rparr>,
             Event_Creator = creator\<rparr>
      in
     (case Marshal_Event n interest of
        Inl err \<Rightarrow> (Inr (Some err), [])
      | Inr evtBytes \<Rightarrow>
     (case crypto evtBytes (Identity_PrivateKey ident) of
        Inl err \<Rightarrow> (Inr (Some err), [Sign_call evtBytes (Identity_PrivateKey ident)])
      | Inr sb \<Rightarrow>
     (let sigEvent = \<lparr>SignedEvent_Signature = sb, SignedEvent_EventBytes = evtBytes\<rparr>;
          calls = [Sign_call evtBytes (Identity_PrivateKey ident), Send_call sigEvent]
      in
     (case client_Send n sigEvent of
        Some err \<Rightarrow> (Inr (Some err), calls)
      | None \<Rightarrow> (Inr None, calls)))))))))"

definition disconnect :: "eventHub \<Rightarrow> eventHub" where
  "disconnect e = e\<lparr>client_sendClosed := True, connection_closed := True\<rparr>"

section \<open>readBlock\<close>

text \<open>
  The reader is a loop around \<^verbatim>\<open>Recv\<close>. It consumes the list of results that
  \<^verbatim>\<open>Recv\<close> will return; the records it sends on the channel \<^verbatim>\<open>response\<close> are
  appended to a list, in the order sent (the consumer is taken to receive each one, so a
  send never blocks for ever). The loop ends in one of three ways: it returns, it panics
  (which, in a goroutine, ends the process), or it waits for ever in \<^verbatim>\<open>Recv\<close>.
\<close>

datatype exit = Returned | Panicked panic | Blocked

fun range_Data ::
  "codec \<Rightarrow> Block \<Rightarrow> bytes list \<Rightarrow> int \<Rightarrow> bytes list \<Rightarrow> BlockEventResponse list \<Rightarrow>
   panic option \<times> BlockEventResponse list" where
  \<comment> \<open>The inner loop over \<^verbatim>\<open>Data.Data\<close>, from position \<open>i\<close> on.\<close>
  "range_Data c blk meta i [] response = (None, response)"
| "range_Data c blk meta i (bd # rest) response =
     (case Block_Header blk of
        None \<Rightarrow> (Some NilDereference, response)
      | Some h \<Rightarrow>
     (case DecodeEventBlock c bd (BlockHeader_Number h) i meta of
        Inl p \<Rightarrow> (Some p, response)
      | Inr r \<Rightarrow> range_Data c blk meta (i + 1) rest (response @ [r])))"

fun readBlock ::
  "codec \<Rightarrow> (error + Event) list \<Rightarrow> eventHub \<Rightarrow> BlockEventResponse list \<Rightarrow>
   exit \<times> eventHub \<times> BlockEventResponse list" where
  "readBlock c [] e response = (Blocked, e, response)"
| "readBlock c (Inl err # later) e response =
     (if err = io_EOF then (Returned, disconnect e, response)
      else (Returned, disconnect e, response @ [BlockEventResponse_zero\<lparr>Error := Some err\<rparr>]))"
| "readBlock c (Inr ev # later) e response =
     (case Event_Event ev of
        Event_Block b \<Rightarrow>
          (case b of
             None \<Rightarrow> (Panicked NilDereference, e, response)
           | Some blk \<Rightarrow>
          (case Block_Metadata blk of
             None \<Rightarrow> (Panicked NilDereference, e, response)
           | Some md \<Rightarrow>
          (let meta = BlockMetadata_Metadata md in
          (case Block_Data blk of
             None \<Rightarrow> (Panicked NilDereference, e, response)
           | Some d \<Rightarrow>
          (case range_Data c blk meta 0 (BlockData_Data d) response of
             (Some p, response1) \<Rightarrow> (Panicked p, e, response1)
           | (None, response1) \<Rightarrow> readBlock c later e response1)))))
      | Event_Register r \<Rightarrow> readBlock c later e response
      | Event_Other \<Rightarrow> readBlock c later e response)"

section \<open>newEventListener\<close>

text \<open>
  The result of \<^verbatim>\<open>newEventListener\<close>: what it returns to its caller, the hub, the calls
  made while registering, and the goroutine started by \<^verbatim>\<open>go hub.readBlock(response)\<close>,
  if any, given by its whole run on the stream.
\<close>

record 'k listener =
  returned :: "panic + error option"
  hub :: eventHub
  calls :: "'k call list"
  reader :: "(exit \<times> eventHub \<times> BlockEventResponse list) option"

definition newEventListener ::
  "codec \<Rightarrow> net \<Rightarrow> BlockEventResponse list \<Rightarrow> 'k CryptoSuite \<Rightarrow> 'k Identity option \<Rightarrow>
   string \<Rightarrow> Peer option \<Rightarrow> 'k listener" where
  "newEventListener c n response crypto identity mspId p =
     (case connect n p new_eventHub of
        (Inl pc, e) \<Rightarrow> \<lparr>returned = Inl pc, hub = e, calls = [], reader = None\<rparr>
      | (Inr (Some err), e) \<Rightarrow> \<lparr>returned = Inr (Some err), hub = e, calls = [], reader = None\<rparr>
      | (Inr None, e) \<Rightarrow>
     (case register n mspId identity crypto of
        (Inl pc, cs) \<Rightarrow> \<lparr>returned = Inl pc, hub = e, calls = cs, reader = None\<rparr>
      | (Inr (Some err), cs) \<Rightarrow> \<lparr>returned = Inr (Some err), hub = e, calls = cs, reader = None\<rparr>
      | (Inr None, cs) \<Rightarrow>
          \<lparr>returned = Inr None, hub = e, calls = cs,
           reader = Some (readBlock c (client_Recv n) e response)\<rparr>))"

definition delivered :: "BlockEventResponse list \<Rightarrow> 'k listener \<Rightarrow> BlockEventResponse list" where
  \<comment> \<open>The records on the channel \<^verbatim>\<open>response\<close> once the reader, if one was started, has run.\<close>
  "delivered response l = (case reader l of None \<Rightarrow> response | Some (ex, e, rs) \<Rightarrow> rs)"

section \<open>A sample protobuf runtime\<close>

text \<open>
  To run the model on concrete inputs, a runtime given by tables. Its inputs are the
  protobuf wire encodings of a few messages (a length-delimited field is a tag byte, a
  length byte and the content; field numbers as in Fabric's \<^verbatim>\<open>.proto\<close> files); on
  these, on the empty input (which decodes to the zero message) and on the single byte
  \<^verbatim>\<open>ff\<close> (a truncated tag, which no message type accepts) it answers as the wire
  format prescribes. Every other input it rejects.

  The full transaction: channel \<^verbatim>\<open>ch1\<close>, transaction id \<^verbatim>\<open>tx1\<close>, chaincode
  \<^verbatim>\<open>cc\<close> version \<^verbatim>\<open>1.0\<close>, invocation arguments \<^verbatim>\<open>a\<close>, \<^verbatim>\<open>b\<close>, \<^verbatim>\<open>20\<close> and the
  chaincode event \<^verbatim>\<open>event1\<close> with payload \<^verbatim>\<open>hello\<close>.
\<close>

definition sample_event :: bytes where
  "sample_event = [0x1a, 0x06, 0x65, 0x76, 0x65, 0x6e, 0x74, 0x31, 0x22, 0x05, 0x68, 0x65, 0x6c, 0x6c, 0x6f]"

definition sample_action :: bytes where
  "sample_action = [0x12, 0x0f] @ sample_event"

definition sample_propResp :: bytes where
  "sample_propResp = [0x12, 0x11] @ sample_action"

definition sample_invocationSpec :: bytes where
  "sample_invocationSpec = [0x0a, 0x0c, 0x1a, 0x0a, 0x0a, 0x01, 0x61, 0x0a, 0x01, 0x62, 0x0a, 0x02, 0x32, 0x30]"

definition sample_proposalPayload :: bytes where
  "sample_proposalPayload = [0x0a, 0x0e] @ sample_invocationSpec"

definition sample_actionPayload :: bytes where
  "sample_actionPayload = [0x0a, 0x10] @ sample_proposalPayload @ [0x12, 0x15, 0x0a, 0x13] @ sample_propResp"

definition sample_actionPayload_noevent :: bytes where
  "sample_actionPayload_noevent = [0x0a, 0x10] @ sample_proposalPayload @ [0x12, 0x00]"

definition sample_transaction :: bytes where
  "sample_transaction = [0x0a, 0x2b, 0x12, 0x29] @ sample_actionPayload"

definition sample_transaction_noevent :: bytes where
  "sample_transaction_noevent = [0x0a, 0x16, 0x12, 0x14] @ sample_actionPayload_noevent"

definition sample_extension :: bytes where
  "sample_extension = [0x12, 0x09, 0x12, 0x02, 0x63, 0x63, 0x1a, 0x03, 0x31, 0x2e, 0x30]"

definition sample_channelHeader :: bytes where
  "sample_channelHeader =
     [0x08, 0x03, 0x22, 0x03, 0x63, 0x68, 0x31, 0x2a, 0x03, 0x74, 0x78, 0x31, 0x3a, 0x0b] @ sample_extension"

definition sample_channelHeader2 :: bytes where
  "sample_channelHeader2 = [0x08, 0x03, 0x22, 0x03, 0x63, 0x68, 0x31, 0x2a, 0x03, 0x74, 0x78, 0x32]"

definition payload_full :: bytes where
  "payload_full = [0x0a, 0x1b, 0x0a, 0x19] @ sample_channelHeader @ [0x12, 0x2d] @ sample_transaction"

definition payload_noevent :: bytes where
  "payload_noevent = [0x0a, 0x1b, 0x0a, 0x19] @ sample_channelHeader @ [0x12, 0x18] @ sample_transaction_noevent"

definition payload_zero :: bytes where
  "payload_zero = [0x0a, 0x0e, 0x0a, 0x0c] @ sample_channelHeader2"

definition payload_badtx :: bytes where
  "payload_badtx = [0x0a, 0x1b, 0x0a, 0x19] @ sample_channelHeader @ [0x12, 0x01, 0xff]"

definition envelope_full :: bytes where
  "envelope_full = [0x0a, 0x4c] @ payload_full"

definition envelope_noevent :: bytes where
  "envelope_noevent = [0x0a, 0x37] @ payload_noevent"

definition envelope_zero :: bytes where
  "envelope_zero = [0x0a, 0x10] @ payload_zero"

definition envelope_badtx :: bytes where
  "envelope_badtx = [0x0a, 0x20] @ payload_badtx"

definition envelope_badpayload :: bytes where
  "envelope_badpayload = [0x0a, 0x01, 0xff]"

definition envelope_corrupt :: bytes where
  "envelope_corrupt = [0xff]"

definition from_table :: "(bytes \<times> 'm) list \<Rightarrow> 'm \<Rightarrow> bytes \<Rightarrow> error option \<times> 'm" where
  "from_table tab zero buf =
     (case map_of tab buf of
        Some m \<Rightarrow> (None, m)
      | None \<Rightarrow> if buf = [] then (None, zero) else (Some (Err ''unexpected EOF''), zero))"

definition sample_header :: ChannelHeader where
  "sample_header = \<lparr>ChannelHeader_Type = 3, ChannelHeader_ChannelId = ''ch1'',
     ChannelHeader_TxId = ''tx1'', ChannelHeader_Extension = sample_extension\<rparr>"

definition sample_header2 :: ChannelHeader where
  "sample_header2 = \<lparr>ChannelHeader_Type = 3, ChannelHeader_ChannelId = ''ch1'',
     ChannelHeader_TxId = ''tx2'', ChannelHeader_Extension = []\<rparr>"

definition sample_codec :: codec where
  "sample_codec =
     \<lparr>Unmarshal_Envelope = from_table
        [(envelope_full, \<lparr>Envelope_Payload = payload_full\<rparr>),
         (envelope_noevent, \<lparr>Envelope_Payload = payload_noevent\<rparr>),
         (envelope_zero, \<lparr>Envelope_Payload = payload_zero\<rparr>),
         (envelope_badtx, \<lparr>Envelope_Payload = payload_badtx\<rparr>),
         (envelope_badpayload, \<lparr>Envelope_Payload = [0xff]\<rparr>)]
        \<lparr>Envelope_Payload = []\<rparr>,
      Unmarshal_Payload = from_table
        [(payload_full, \<lparr>Payload_Header = Some \<lparr>Header_ChannelHeader = sample_channelHeader\<rparr>,
            Payload_Data = sample_transaction\<rparr>),
         (payload_noevent, \<lparr>Payload_Header = Some \<lparr>Header_ChannelHeader = sample_channelHeader\<rparr>,
            Payload_Data = sample_transaction_noevent\<rparr>),
         (payload_zero, \<lparr>Payload_Header = Some \<lparr>Header_ChannelHeader = sample_channelHeader2\<rparr>,
            Payload_Data = []\<rparr>),
         (payload_badtx, \<lparr>Payload_Header = Some \<lparr>Header_ChannelHeader = sample_channelHeader\<rparr>,
            Payload_Data = [0xff]\<rparr>)]
        \<lparr>Payload_Header = None, Payload_Data = []\<rparr>,
      Unmarshal_ChannelHeader = from_table
        [(sample_channelHeader, sample_header), (sample_channelHeader2, sample_header2)]
        \<lparr>ChannelHeader_Type = 0, ChannelHeader_ChannelId = [], ChannelHeader_TxId = [],
         ChannelHeader_Extension = []\<rparr>,
      Unmarshal_ChaincodeHeaderExtension = from_table
        [(sample_extension, \<lparr>ChaincodeHeaderExtension_ChaincodeId =
            Some \<lparr>ChaincodeID_Name = ''cc'', ChaincodeID_Version = ''1.0''\<rparr>\<rparr>)]
        \<lparr>ChaincodeHeaderExtension_ChaincodeId = None\<rparr>,
      Unmarshal_Transaction = from_table
        [(sample_transaction,
            \<lparr>Transaction_Actions = [\<lparr>TransactionAction_Payload = sample_actionPayload\<rparr>]\<rparr>),
         (sample_transaction_noevent,
            \<lparr>Transaction_Actions = [\<lparr>TransactionAction_Payload = sample_actionPayload_noevent\<rparr>]\<rparr>)]
        \<lparr>Transaction_Actions = []\<rparr>,
      Unmarshal_ChaincodeActionPayload = from_table
        [(sample_actionPayload,
            \<lparr>ChaincodeActionPayload_ChaincodeProposalPayload = sample_proposalPayload,
             ChaincodeActionPayload_Action =
               Some \<lparr>ChaincodeEndorsedAction_ProposalResponsePayload = sample_propResp\<rparr>\<rparr>),
         (sample_actionPayload_noevent,
            \<lparr>ChaincodeActionPayload_ChaincodeProposalPayload = sample_proposalPayload,
             ChaincodeActionPayload_Action =
               Some \<lparr>ChaincodeEndorsedAction_ProposalResponsePayload = []\<rparr>\<rparr>)]
        \<lparr>ChaincodeActionPayload_ChaincodeProposalPayload = [], ChaincodeActionPayload_Action = None\<rparr>,
      Unmarshal_ChaincodeProposalPayload = from_table
        [(sample_proposalPayload, \<lparr>ChaincodeProposalPayload_Input = sample_invocationSpec\<rparr>)]
        \<lparr>ChaincodeProposalPayload_Input = []\<rparr>,
      Unmarshal_ChaincodeInvocationSpec = from_table
        [(sample_invocationSpec, \<lparr>ChaincodeInvocationSpec_ChaincodeSpec =
            Some \<lparr>ChaincodeSpec_Input = Some \<lparr>ChaincodeInput_Args = [[0x61], [0x62], [0x32, 0x30]]\<rparr>\<rparr>\<rparr>)]
        \<lparr>ChaincodeInvocationSpec_ChaincodeSpec = None\<rparr>,
      Unmarshal_ProposalResponsePayload = from_table
        [(sample_propResp, \<lparr>ProposalResponsePayload_Extension = sample_action\<rparr>)]
        \<lparr>ProposalResponsePayload_Extension = []\<rparr>,
      Unmarshal_ChaincodeAction = from_table
        [(sample_action, \<lparr>ChaincodeAction_Events = sample_event\<rparr>)]
        \<lparr>ChaincodeAction_Events = []\<rparr>,
      Unmarshal_ChaincodeEvent = from_table
        [(sample_event, \<lparr>ChaincodeEvent_EventName = ''event1'',
            ChaincodeEvent_Payload = [0x68, 0x65, 0x6c, 0x6c, 0x6f]\<rparr>)]
        \<lparr>ChaincodeEvent_EventName = [], ChaincodeEvent_Payload = []\<rparr>\<rparr>"

section \<open>Observations on a run of the decoder\<close>

text \<open>
  Two observations name the two ways the header stages (lines 145 to 159) can end without
  a panic. \<open>outer_stage_error\<close> is the error of the first of the envelope, the channel
  header and the header extension that fails to unmarshal (a failure of the payload is
  not among them: line 149 records it and goes on). \<open>reaches_stage5\<close> holds when none of
  the three fails, and names what the stages leave: the error of the payload stage, if
  any, the payload, the channel header and its extension.
\<close>

definition outer_stage_error :: "codec \<Rightarrow> bytes \<Rightarrow> error option" where
  "outer_stage_error c pl =
     (case Unmarshal_Envelope c pl of
        (Some err, envelope) \<Rightarrow> Some err
      | (None, envelope) \<Rightarrow>
     (case Payload_Header (snd (Unmarshal_Payload c (Envelope_Payload envelope))) of
        None \<Rightarrow> None
      | Some hdr \<Rightarrow>
     (case Unmarshal_ChannelHeader c (Header_ChannelHeader hdr) of
        (Some err, header) \<Rightarrow> Some err
      | (None, header) \<Rightarrow>
          fst (Unmarshal_ChaincodeHeaderExtension c (ChannelHeader_Extension header)))))"

definition reaches_stage5 ::
  "codec \<Rightarrow> bytes \<Rightarrow> error option \<Rightarrow> Payload \<Rightarrow> ChannelHeader \<Rightarrow> ChaincodeHeaderExtension \<Rightarrow> bool" where
  "reaches_stage5 c pl perr payload header ex =
     (case Unmarshal_Envelope c pl of
        (Some err, envelope) \<Rightarrow> False
      | (None, envelope) \<Rightarrow>
          Unmarshal_Payload c (Envelope_Payload envelope) = (perr, payload) \<and>
          (case Payload_Header payload of
             None \<Rightarrow> False
           | Some hdr \<Rightarrow>
               Unmarshal_ChannelHeader c (Header_ChannelHeader hdr) = (None, header) \<and>
               Unmarshal_ChaincodeHeaderExtension c (ChannelHeader_Extension header) = (None, ex)))"

text \<open>
  \<open>inner_stage_error\<close> is the error of the first unmarshal of the endorser branch (lines
  174 to 221) that fails, if one fails before the branch panics or completes.
\<close>

definition inner_stage_error :: "codec \<Rightarrow> Payload \<Rightarrow> error option" where
  "inner_stage_error c payload =
     (case Unmarshal_Transaction c (Payload_Data payload) of
        (Some err, tx) \<Rightarrow> Some err
      | (None, tx) \<Rightarrow>
     (case Transaction_Actions tx of
        [] \<Rightarrow> None
      | action0 # others \<Rightarrow>
     (case Unmarshal_ChaincodeActionPayload c (TransactionAction_Payload action0) of
        (Some err, cap) \<Rightarrow> Some err
      | (None, cap) \<Rightarrow>
     (case Unmarshal_ChaincodeProposalPayload c
             (ChaincodeActionPayload_ChaincodeProposalPayload cap) of
        (Some err, cpp) \<Rightarrow> Some err
      | (None, cpp) \<Rightarrow>
     (case Unmarshal_ChaincodeInvocationSpec c (ChaincodeProposalPayload_Input cpp) of
        (Some err, cis) \<Rightarrow> Some err
      | (None, cis) \<Rightarrow>
     (case Option.bind (ChaincodeInvocationSpec_ChaincodeSpec cis) ChaincodeSpec_Input of
        None \<Rightarrow> None
      | Some input \<Rightarrow>
     (case ChaincodeActionPayload_Action cap of
        None \<Rightarrow> None
      | Some endorsed \<Rightarrow>
     (case Unmarshal_ProposalResponsePayload c
             (ChaincodeEndorsedAction_ProposalResponsePayload endorsed) of
        (Some err, prp) \<Rightarrow> Some err
      | (None, prp) \<Rightarrow>
     (case Unmarshal_ChaincodeAction c (ProposalResponsePayload_Extension prp) of
        (Some err, ca) \<Rightarrow> Some err
      | (None, ca) \<Rightarrow> fst (Unmarshal_ChaincodeEvent c (ChaincodeAction_Events ca)))))))))))"

section \<open>Observations on a run of the reader\<close>

text \<open>
  The decode calls that a message of the stream asks for, in order: for a Block message,
  one per entry of its data list, with the entry's bytes, the header's number, the
  entry's position and the metadata; none for any other message.
\<close>

type_synonym entry = "bytes \<times> 64 word \<times> int \<times> bytes list"

definition block_entries :: "Block \<Rightarrow> entry list" where
  "block_entries blk =
     (case (Block_Header blk, Block_Data blk, Block_Metadata blk) of
        (Some h, Some d, Some md) \<Rightarrow>
          map (\<lambda>(i, bd). (bd, BlockHeader_Number h, int i, BlockMetadata_Metadata md))
            (enumerate 0 (BlockData_Data d))
      | _ \<Rightarrow> [])"

definition event_entries :: "Event \<Rightarrow> entry list" where
  "event_entries ev =
     (case Event_Event ev of
        Event_Block (Some blk) \<Rightarrow> block_entries blk
      | _ \<Rightarrow> [])"

text \<open>
  \<open>entry_record c en r\<close>: the record \<open>r\<close> is what the decoder returns for the entry \<open>en\<close>;
  it carries only the error when an outer stage failed on the entry, and the block's
  number and the entry's position otherwise.
\<close>

definition entry_record :: "codec \<Rightarrow> entry \<Rightarrow> BlockEventResponse \<Rightarrow> bool" where
  "entry_record c en r =
     (case en of (bd, number, i, meta) \<Rightarrow>
        DecodeEventBlock c bd number i meta = Inr r \<and>
        (case outer_stage_error c bd of
           Some err \<Rightarrow> r = BlockEventResponse_zero\<lparr>Error := Some err\<rparr>
         | None \<Rightarrow> BlockHeight r = number \<and> TxIndex r = i))"

section \<open>A sample stream and a sample peer\<close>

definition sample_metadata :: "bytes list" where
  \<comment> \<open>Validation flags at position 2: the first transaction valid, the second not.\<close>
  "sample_metadata = [[], [], [0, 11]]"

definition block_event :: "Block \<Rightarrow> Event" where
  "block_event blk = \<lparr>Event_Event = Event_Block (Some blk), Event_Creator = []\<rparr>"

definition sample_block :: "bytes list \<Rightarrow> Block" where
  \<comment> \<open>Block number 7 with the given entries.\<close>
  "sample_block entries =
     \<lparr>Block_Header = Some \<lparr>BlockHeader_Number = 7\<rparr>,
      Block_Data = Some \<lparr>BlockData_Data = entries\<rparr>,
      Block_Metadata = Some \<lparr>BlockMetadata_Metadata = sample_metadata\<rparr>\<rparr>"

definition sample_full_record :: BlockEventResponse where
  "sample_full_record =
     \<lparr>Error = None, IsVaild = True, BlockHeight = 7, TxIndex = 0, TxID = ''tx1'',
      ChannelName = ''ch1'', ChainCodeName = ''cc'', ChainCodeVersion = ''1.0'', Status = 0,
      ChainCodeInput = [[0x61], [0x62], [0x32, 0x30]],
      CCEvents = [\<lparr>EventName = ''event1'', EventPayload = [0x68, 0x65, 0x6c, 0x6c, 0x6f]\<rparr>]\<rparr>"

definition sample_net :: net where
  "sample_net =
     \<lparr>grpc_Dial = (\<lambda>uri opts. if uri = ''peer0:7053'' then None
                     else Some (Err ''context deadline exceeded'')),
      Events_Chat = None,
      client_Send = (\<lambda>m. None),
      client_Recv = [Inr (block_event (sample_block [envelope_full, envelope_corrupt])),
                     Inl io_EOF],
      Marshal_SerializedIdentity =
        (\<lambda>si. Inr (of_nat (length (SerializedIdentity_Mspid si)) #
                    SerializedIdentity_IdBytes si)),
      Marshal_Event = (\<lambda>ev. Inr (0x0a # Event_Creator ev)),
      pem_EncodeToMemory = (\<lambda>b. 0x2d # pem_Block_Bytes b)\<rparr>"

definition sample_crypto :: "nat CryptoSuite" where
  \<comment> \<open>A stand-in for a signature scheme: it accepts the key 42 only.\<close>
  "sample_crypto msg key = (if key = 42 then Inr (rev msg) else Inl (Err ''unsupported key''))"

definition sample_identity :: "nat \<Rightarrow> nat Identity" where
  "sample_identity key =
     \<lparr>Identity_Certificate = Some \<lparr>Certificate_Raw = [0x30, 0x82]\<rparr>, Identity_PrivateKey = key\<rparr>"

definition sample_peer :: "string \<Rightarrow> Peer" where
  "sample_peer uri = \<lparr>Peer_Uri = uri, Peer_Opts = []\<rparr>"

section \<open>The decoder, stage by stage\<close>

lemmas sample_bytes =
  sample_event_def sample_action_def sample_propResp_def sample_invocationSpec_def
  sample_proposalPayload_def sample_actionPayload_def sample_actionPayload_noevent_def
  sample_transaction_def sample_transaction_noevent_def sample_extension_def
  sample_channelHeader_def sample_channelHeader2_def payload_full_def payload_noevent_def
  payload_zero_def payload_badtx_def envelope_full_def envelope_noevent_def envelope_zero_def
  envelope_badtx_def envelope_badpayload_def envelope_corrupt_def

lemmas sample_run =
  DecodeEventBlock_def DecodeEventBlock_base_def DecodeEventBlock_endorser_def
  sample_codec_def from_table_def sample_bytes at_index_def IsValid_def Flag_def
  BlockMetadataIndex_TRANSACTIONS_FILTER_def HeaderType_ENDORSER_TRANSACTION_def
  sample_header_def sample_header2_def BlockEventResponse_zero_def TxValidationCode_VALID_def
  outer_stage_error_def reaches_stage5_def inner_stage_error_def

lemma DecodeEventBlock_outer:
  assumes "outer_stage_error c pl = Some e"
  shows "DecodeEventBlock c pl blockNum idx metadata =
    Inr (BlockEventResponse_zero\<lparr>Error := Some e\<rparr>)"
  using assms
  by (auto simp: DecodeEventBlock_def outer_stage_error_def Let_def
      split: prod.splits option.splits)

lemma DecodeEventBlock_stage5:
  assumes "reaches_stage5 c pl perr payload header ex"
  shows "DecodeEventBlock c pl blockNum idx metadata =
     (case DecodeEventBlock_base (BlockEventResponse_zero\<lparr>Error := perr\<rparr>)
             blockNum idx metadata header ex of
        Inl p \<Rightarrow> Inl p
      | Inr response5 \<Rightarrow>
          if ChannelHeader_Type header = HeaderType_ENDORSER_TRANSACTION
          then DecodeEventBlock_endorser c payload response5
          else Inr response5)"
  using assms
  by (auto simp: DecodeEventBlock_def reaches_stage5_def Let_def BlockEventResponse_zero_def
      split: prod.splits option.splits sum.splits)

lemma DecodeEventBlock_base_Inr:
  assumes "DecodeEventBlock_base response blockNum idx metadata header ex = Inr r"
  shows "2 < length metadata \<and> 0 \<le> idx \<and> idx < int (length (metadata ! 2)) \<and>
     r = response\<lparr>IsVaild := (metadata ! 2 ! nat idx = 0), BlockHeight := blockNum,
           TxIndex := idx, TxID := ChannelHeader_TxId header,
           ChannelName := ChannelHeader_ChannelId header,
           ChainCodeName := (case ChaincodeHeaderExtension_ChaincodeId ex of
              None \<Rightarrow> ChainCodeName response | Some cid \<Rightarrow> ChaincodeID_Name cid),
           ChainCodeVersion := (case ChaincodeHeaderExtension_ChaincodeId ex of
              None \<Rightarrow> ChainCodeVersion response | Some cid \<Rightarrow> ChaincodeID_Version cid),
           Status := ucast (metadata ! 2 ! nat idx)\<rparr>"
  using assms
  by (auto simp: DecodeEventBlock_base_def at_index_def IsValid_def Flag_def Let_def
      BlockMetadataIndex_TRANSACTIONS_FILTER_def TxValidationCode_VALID_def
      split: if_splits option.splits sum.splits)

lemma DecodeEventBlock_base_Inl:
  assumes "DecodeEventBlock_base response blockNum idx metadata header ex = Inl p"
  shows "p = IndexOutOfRange"
  using assms
  by (auto simp: DecodeEventBlock_base_def at_index_def IsValid_def Flag_def Let_def
      split: if_splits option.splits sum.splits)

lemma DecodeEventBlock_endorser_frame:
  assumes "DecodeEventBlock_endorser c payload response = Inr r"
  shows "IsVaild r = IsVaild response \<and> BlockHeight r = BlockHeight response \<and>
     TxIndex r = TxIndex response \<and> TxID r = TxID response \<and>
     ChannelName r = ChannelName response \<and> ChainCodeName r = ChainCodeName response \<and>
     ChainCodeVersion r = ChainCodeVersion response \<and> Status r = Status response"
  using assms
  by (auto simp: DecodeEventBlock_endorser_def Let_def
      split: prod.splits option.splits sum.splits)

lemma DecodeEventBlock_endorser_error:
  assumes "DecodeEventBlock_endorser c payload response = Inr r"
    and "inner_stage_error c payload = Some e"
  shows "Error r = Some e \<and> CCEvents r = CCEvents response"
  using assms
  by (auto simp: DecodeEventBlock_endorser_def inner_stage_error_def at_index_def Let_def
      split: prod.splits option.splits sum.splits list.splits if_splits)

lemma DecodeEventBlock_stage5_fields:
  assumes reach: "reaches_stage5 c pl perr payload header ex"
    and ret: "DecodeEventBlock c pl blockNum idx metadata = Inr r"
  shows "2 < length metadata \<and> 0 \<le> idx \<and> idx < int (length (metadata ! 2)) \<and>
     IsVaild r = (metadata ! 2 ! nat idx = 0) \<and> BlockHeight r = blockNum \<and> TxIndex r = idx \<and>
     TxID r = ChannelHeader_TxId header \<and> ChannelName r = ChannelHeader_ChannelId header \<and>
     ChainCodeName r = (case ChaincodeHeaderExtension_ChaincodeId ex of
        None \<Rightarrow> [] | Some cid \<Rightarrow> ChaincodeID_Name cid) \<and>
     ChainCodeVersion r = (case ChaincodeHeaderExtension_ChaincodeId ex of
        None \<Rightarrow> [] | Some cid \<Rightarrow> ChaincodeID_Version cid) \<and>
     Status r = ucast (metadata ! 2 ! nat idx)"
proof -
  let ?r0 = "BlockEventResponse_zero\<lparr>Error := perr\<rparr>"
  from ret obtain r5 where
    base: "DecodeEventBlock_base ?r0 blockNum idx metadata header ex = Inr r5"
    and rest: "(if ChannelHeader_Type header = HeaderType_ENDORSER_TRANSACTION
                then DecodeEventBlock_endorser c payload r5 else Inr r5) = Inr r"
    by (auto simp: DecodeEventBlock_stage5 [OF reach] split: sum.splits)
  note b = DecodeEventBlock_base_Inr [OF base]
  have keep: "IsVaild r = IsVaild r5 \<and> BlockHeight r = BlockHeight r5 \<and>
     TxIndex r = TxIndex r5 \<and> TxID r = TxID r5 \<and>
     ChannelName r = ChannelName r5 \<and> ChainCodeName r = ChainCodeName r5 \<and>
     ChainCodeVersion r = ChainCodeVersion r5 \<and> Status r = Status r5"
    using rest DecodeEventBlock_endorser_frame [of c payload r5 r]
    by (auto split: if_splits)
  from b have r5: "IsVaild r5 = (metadata ! 2 ! nat idx = 0)" "BlockHeight r5 = blockNum"
    "TxIndex r5 = idx" "TxID r5 = ChannelHeader_TxId header"
    "ChannelName r5 = ChannelHeader_ChannelId header"
    "ChainCodeName r5 = (case ChaincodeHeaderExtension_ChaincodeId ex of
        None \<Rightarrow> [] | Some cid \<Rightarrow> ChaincodeID_Name cid)"
    "ChainCodeVersion r5 = (case ChaincodeHeaderExtension_ChaincodeId ex of
        None \<Rightarrow> [] | Some cid \<Rightarrow> ChaincodeID_Version cid)"
    "Status r5 = ucast (metadata ! 2 ! nat idx)"
    by (auto simp: BlockEventResponse_zero_def split: option.splits)
  from b keep r5 show ?thesis by simp
qed

lemma ucast_byte_eq_0: "(ucast (b :: 8 word) :: 32 word) = 0 \<longleftrightarrow> b = 0"
proof
  assume z: "(ucast b :: 32 word) = 0"
  have "unat b < 2 ^ 32"
    using unsigned_less [of b, where ?'a = nat] by simp
  then have "unat (ucast b :: 32 word) = unat b"
    by (simp add: unsigned_ucast_eq take_bit_nat_eq_self)
  with z have "unat b = 0" by simp
  then show "b = 0" by (simp add: unsigned_eq_0_iff)
qed simp

subsection \<open>The sample inputs, decoded\<close>

lemma sample_zero_reaches:
  "reaches_stage5 sample_codec envelope_zero None
     \<lparr>Payload_Header = Some \<lparr>Header_ChannelHeader = sample_channelHeader2\<rparr>, Payload_Data = []\<rparr>
     sample_header2 \<lparr>ChaincodeHeaderExtension_ChaincodeId = None\<rparr>"
  by (simp add: sample_run sample_metadata_def)

lemma sample_badtx_reaches:
  "reaches_stage5 sample_codec envelope_badtx None
     \<lparr>Payload_Header = Some \<lparr>Header_ChannelHeader = sample_channelHeader\<rparr>,
      Payload_Data = [0xff]\<rparr>
     sample_header
     \<lparr>ChaincodeHeaderExtension_ChaincodeId =
        Some \<lparr>ChaincodeID_Name = ''cc'', ChaincodeID_Version = ''1.0''\<rparr>\<rparr>"
  by (simp add: sample_run sample_metadata_def)

lemma sample_full_reaches:
  "reaches_stage5 sample_codec envelope_full None
     \<lparr>Payload_Header = Some \<lparr>Header_ChannelHeader = sample_channelHeader\<rparr>,
      Payload_Data = sample_transaction\<rparr>
     sample_header
     \<lparr>ChaincodeHeaderExtension_ChaincodeId =
        Some \<lparr>ChaincodeID_Name = ''cc'', ChaincodeID_Version = ''1.0''\<rparr>\<rparr>"
  by (simp add: sample_run sample_metadata_def)

lemma sample_noevent_reaches:
  "reaches_stage5 sample_codec envelope_noevent None
     \<lparr>Payload_Header = Some \<lparr>Header_ChannelHeader = sample_channelHeader\<rparr>,
      Payload_Data = sample_transaction_noevent\<rparr>
     sample_header
     \<lparr>ChaincodeHeaderExtension_ChaincodeId =
        Some \<lparr>ChaincodeID_Name = ''cc'', ChaincodeID_Version = ''1.0''\<rparr>\<rparr>"
  by (simp add: sample_run sample_metadata_def)

lemma sample_corrupt_decoded:
  "DecodeEventBlock sample_codec envelope_corrupt blockNum idx metadata =
     Inr (BlockEventResponse_zero\<lparr>Error := Some (Err ''unexpected EOF'')\<rparr>)"
  by (simp add: sample_run sample_metadata_def)

lemma sample_badtx_decoded:
  "DecodeEventBlock sample_codec envelope_badtx 7 1 sample_metadata =
     Inr \<lparr>Error = Some (Err ''unexpected EOF''), IsVaild = False, BlockHeight = 7, TxIndex = 1,
          TxID = ''tx1'', ChannelName = ''ch1'', ChainCodeName = ''cc'',
          ChainCodeVersion = ''1.0'', Status = 11, ChainCodeInput = [], CCEvents = []\<rparr>"
  by (simp add: sample_run sample_metadata_def)

lemma sample_full_decoded:
  "DecodeEventBlock sample_codec envelope_full 7 0 sample_metadata =
     Inr sample_full_record"
  by (simp add: sample_run sample_metadata_def sample_full_record_def)

lemma sample_noevent_decoded:
  "DecodeEventBlock sample_codec envelope_noevent 7 0 sample_metadata =
     Inr \<lparr>Error = None, IsVaild = True, BlockHeight = 7, TxIndex = 0, TxID = ''tx1'',
          ChannelName = ''ch1'', ChainCodeName = ''cc'', ChainCodeVersion = ''1.0'', Status = 0,
          ChainCodeInput = [[0x61], [0x62], [0x32, 0x30]],
          CCEvents = [\<lparr>EventName = [], EventPayload = []\<rparr>]\<rparr>"
  by (simp add: sample_run sample_metadata_def)

lemma sample_zero_decoded:
  "DecodeEventBlock sample_codec envelope_zero 7 0 sample_metadata = Inl IndexOutOfRange"
  by (simp add: sample_run sample_metadata_def)

section \<open>The reader\<close>

lemma DecodeEventBlock_Inr_reaches:
  assumes "DecodeEventBlock c pl blockNum idx metadata = Inr r"
    and "outer_stage_error c pl = None"
  shows "\<exists>perr payload header ex. reaches_stage5 c pl perr payload header ex"
  using assms
  by (auto simp: DecodeEventBlock_def outer_stage_error_def reaches_stage5_def Let_def
      split: prod.splits option.splits)

lemma DecodeEventBlock_entry_record:
  assumes "DecodeEventBlock c bd number i meta = Inr r"
  shows "entry_record c (bd, number, i, meta) r"
proof (cases "outer_stage_error c bd")
  case None
  from DecodeEventBlock_Inr_reaches [OF assms None] obtain perr payload header ex
    where "reaches_stage5 c bd perr payload header ex" by blast
  from DecodeEventBlock_stage5_fields [OF this assms] None assms
  show ?thesis by (simp add: entry_record_def)
next
  case (Some err)
  from DecodeEventBlock_outer [OF Some, of number i meta] assms Some
  show ?thesis by (simp add: entry_record_def)
qed

lemma range_Data_records:
  assumes "range_Data c blk meta (int n) ds response = (None, response')"
  shows "\<exists>rs. response' = response @ rs \<and>
     list_all2 (\<lambda>(k, bd) r. \<exists>h. Block_Header blk = Some h \<and>
        entry_record c (bd, BlockHeader_Number h, int k, meta) r) (enumerate n ds) rs"
  using assms
proof (induction ds arbitrary: n response)
  case Nil
  then show ?case by simp
next
  case (Cons bd rest)
  from Cons.prems obtain h r where h: "Block_Header blk = Some h"
    and r: "DecodeEventBlock c bd (BlockHeader_Number h) (int n) meta = Inr r"
    and run: "range_Data c blk meta (int (Suc n)) rest (response @ [r]) = (None, response')"
    by (auto simp: add.commute split: option.splits sum.splits)
  from Cons.IH [OF run] obtain rs where rs: "response' = (response @ [r]) @ rs"
    and all: "list_all2 (\<lambda>(k, bd) r. \<exists>h. Block_Header blk = Some h \<and>
        entry_record c (bd, BlockHeader_Number h, int k, meta) r) (enumerate (Suc n) rest) rs"
    by blast
  from h all DecodeEventBlock_entry_record [OF r] rs show ?case
    by (intro exI [of _ "r # rs"]) simp
qed

lemma range_Data_block_entries:
  assumes "range_Data c blk (BlockMetadata_Metadata md) 0 (BlockData_Data d) response =
      (None, response')"
    and "Block_Metadata blk = Some md" and "Block_Data blk = Some d"
  shows "\<exists>rs. response' = response @ rs \<and> list_all2 (entry_record c) (block_entries blk) rs"
proof -
  from range_Data_records [of c blk _ 0, simplified, OF assms(1)] obtain rs
    where rs: "response' = response @ rs"
      and all: "list_all2 (\<lambda>(k, bd) r. \<exists>h. Block_Header blk = Some h \<and>
        entry_record c (bd, BlockHeader_Number h, int k, BlockMetadata_Metadata md) r)
        (enumerate 0 (BlockData_Data d)) rs"
    by blast
  have "list_all2 (entry_record c) (block_entries blk) rs"
  proof (cases "Block_Header blk")
    case None
    with all have "rs = []"
      by (cases rs; cases "BlockData_Data d") (auto simp: list_all2_Cons2)
    moreover from None have "block_entries blk = []" by (simp add: block_entries_def)
    ultimately show ?thesis by simp
  next
    case (Some h)
    with all assms(2,3) show ?thesis
      by (auto simp: block_entries_def list_all2_map1 case_prod_unfold
          elim!: list_all2_mono)
  qed
  with rs show ?thesis by blast
qed

lemma readBlock_Blocked_records:
  assumes "readBlock c (map Inr evs) e response = (Blocked, e', response')"
  shows "\<exists>rs. response' = response @ rs \<and>
     list_all2 (entry_record c) (concat (map event_entries evs)) rs"
  using assms
proof (induction evs arbitrary: response)
  case Nil
  then show ?case by simp
next
  case (Cons ev evs)
  show ?case
  proof (cases "Event_Event ev")
    case (Event_Block b)
    with Cons.prems obtain blk md d response1 where b: "b = Some blk"
      and md: "Block_Metadata blk = Some md" and d: "Block_Data blk = Some d"
      and inner: "range_Data c blk (BlockMetadata_Metadata md) 0 (BlockData_Data d) response =
        (None, response1)"
      and run: "readBlock c (map Inr evs) e response1 = (Blocked, e', response')"
      by (auto simp: Let_def split: option.splits prod.splits)
    from range_Data_block_entries [OF inner md d] obtain rs1
      where rs1: "response1 = response @ rs1"
        and all1: "list_all2 (entry_record c) (block_entries blk) rs1" by blast
    from Cons.IH [OF run] obtain rs2 where rs2: "response' = response1 @ rs2"
      and all2: "list_all2 (entry_record c) (concat (map event_entries evs)) rs2" by blast
    from Event_Block b have "event_entries ev = block_entries blk"
      by (simp add: event_entries_def)
    with rs1 rs2 all1 all2 show ?thesis
      by (intro exI [of _ "rs1 @ rs2"]) (simp add: list_all2_appendI)
  next
    case (Event_Register reg)
    with Cons.prems have "readBlock c (map Inr evs) e response = (Blocked, e', response')"
      by simp
    from Cons.IH [OF this] Event_Register show ?thesis by (simp add: event_entries_def)
  next
    case Event_Other
    with Cons.prems have "readBlock c (map Inr evs) e response = (Blocked, e', response')"
      by simp
    from Cons.IH [OF this] Event_Other show ?thesis by (simp add: event_entries_def)
  qed
qed

lemma readBlock_Blocked_append:
  assumes "readBlock c before e response = (Blocked, e1, mid)"
  shows "e1 = e \<and> readBlock c (before @ rest) e response = readBlock c rest e mid"
  using assms
proof (induction c before e response rule: readBlock.induct)
  case (1 c e response)
  then show ?case by simp
next
  case (2 c err later e response)
  then show ?case by (simp split: if_splits)
next
  case (3 c ev later e response)
  then show ?case
    by (auto simp: Let_def split: isEvent_Event.splits option.splits prod.splits)
qed

lemma readBlock_Returned_split:
  assumes "readBlock c incoming e response = (Returned, e', response')"
  shows "\<exists>before err later mid. incoming = before @ Inl err # later \<and>
     readBlock c before e response = (Blocked, e, mid) \<and> e' = disconnect e \<and>
     response' = (if err = io_EOF then mid
                  else mid @ [BlockEventResponse_zero\<lparr>Error := Some err\<rparr>])"
  using assms
proof (induction c incoming e response rule: readBlock.induct)
  case (1 c e response)
  then show ?case by simp
next
  case (2 c err later e response)
  then show ?case
    by (intro exI [of _ "[]"] exI [of _ err] exI [of _ later] exI [of _ response])
      (auto split: if_splits)
next
  case (3 c ev later e response)
  from "3.prems" obtain response1 where
    step: "readBlock c (Inr ev # later) e response = readBlock c later e response1"
    and stepB: "\<And>xs. readBlock c (Inr ev # xs) e response = readBlock c xs e response1"
    and ih: "\<exists>before err later' mid. later = before @ Inl err # later' \<and>
       readBlock c before e response1 = (Blocked, e, mid) \<and> e' = disconnect e \<and>
       response' = (if err = io_EOF then mid
                    else mid @ [BlockEventResponse_zero\<lparr>Error := Some err\<rparr>])"
    using "3.IH"
    by (auto simp: Let_def split: isEvent_Event.splits option.splits prod.splits)
  from ih obtain before err later' mid where
    "later = before @ Inl err # later'"
    "readBlock c before e response1 = (Blocked, e, mid)" "e' = disconnect e"
    "response' = (if err = io_EOF then mid
                  else mid @ [BlockEventResponse_zero\<lparr>Error := Some err\<rparr>])"
    by blast
  then show ?case
    using stepB [of before]
    by (intro exI [of _ "Inr ev # before"] exI [of _ err] exI [of _ later'] exI [of _ mid])
      simp
qed

section \<open>The claims about DecodeEventBlock\<close>

text \<open>
  C1. The claim: a transaction envelope of type endorser-transaction whose decoded
  Transaction has zero actions yields a record carrying a reported error, never an
  unchecked index access, and the reader goes on with the following transactions.
  The code does not do this. Line 182 reads \<^verbatim>\<open>tx.Actions[0]\<close> with no check of the
  length, so for every such envelope, whatever the block number, position and metadata,
  \<open>DecodeEventBlock\<close> panics with an index out of range and returns no record.
\<close>

theorem DecodeEventBlock_zero_actions_panics:
  assumes "reaches_stage5 c pl perr payload header ex"
    and "ChannelHeader_Type header = HeaderType_ENDORSER_TRANSACTION"
    and "Unmarshal_Transaction c (Payload_Data payload) = (None, tx)"
    and "Transaction_Actions tx = []"
  shows "DecodeEventBlock c pl blockNum idx metadata = Inl IndexOutOfRange"
proof (cases "DecodeEventBlock_base (BlockEventResponse_zero\<lparr>Error := perr\<rparr>)
    blockNum idx metadata header ex")
  case (Inl p)
  then show ?thesis
    using DecodeEventBlock_base_Inl [OF Inl]
    by (simp add: DecodeEventBlock_stage5 [OF assms(1)])
next
  case (Inr r5)
  have "DecodeEventBlock_endorser c payload r5 = Inl IndexOutOfRange"
    using assms(3,4) by (simp add: DecodeEventBlock_endorser_def at_index_def)
  then show ?thesis
    using assms(2) Inr by (simp add: DecodeEventBlock_stage5 [OF assms(1)])
qed

text \<open>
  C2. If the error of the returned record comes from an outer stage (the envelope, the
  channel header or the header extension does not unmarshal), every other field of the
  record has its zero value. If the header stages pass, the record carries the block
  height, the position, the transaction id, the channel name, the chaincode name and
  version when the extension has a chaincode id, the status and the validity flag, also
  when an unmarshal of the endorser branch fails; in that case the error is that
  unmarshal's error.
\<close>

theorem DecodeEventBlock_error_and_fields:
  assumes "DecodeEventBlock c pl blockNum idx metadata = Inr r"
  shows "(\<forall>e. outer_stage_error c pl = Some e \<longrightarrow>
            r = BlockEventResponse_zero\<lparr>Error := Some e\<rparr>) \<and>
         (\<forall>perr payload header ex. reaches_stage5 c pl perr payload header ex \<longrightarrow>
            BlockHeight r = blockNum \<and> TxIndex r = idx \<and>
            TxID r = ChannelHeader_TxId header \<and>
            ChannelName r = ChannelHeader_ChannelId header \<and>
            (\<forall>cid. ChaincodeHeaderExtension_ChaincodeId ex = Some cid \<longrightarrow>
               ChainCodeName r = ChaincodeID_Name cid \<and>
               ChainCodeVersion r = ChaincodeID_Version cid) \<and>
            Status r = ucast (metadata ! 2 ! nat idx) \<and>
            IsVaild r = (metadata ! 2 ! nat idx = TxValidationCode_VALID) \<and>
            (\<forall>e. ChannelHeader_Type header = HeaderType_ENDORSER_TRANSACTION \<and>
                 inner_stage_error c payload = Some e \<longrightarrow> Error r = Some e))"
proof (intro conjI allI impI)
  fix e
  assume "outer_stage_error c pl = Some e"
  from DecodeEventBlock_outer [OF this, of blockNum idx metadata] assms
  show "r = BlockEventResponse_zero\<lparr>Error := Some e\<rparr>" by simp
next
  fix perr payload header ex
  assume reach: "reaches_stage5 c pl perr payload header ex"
  note f = DecodeEventBlock_stage5_fields [OF reach assms]
  from f show "BlockHeight r = blockNum" "TxIndex r = idx"
    "TxID r = ChannelHeader_TxId header" "ChannelName r = ChannelHeader_ChannelId header"
    "Status r = ucast (metadata ! 2 ! nat idx)"
    "IsVaild r = (metadata ! 2 ! nat idx = TxValidationCode_VALID)"
    by (simp_all add: TxValidationCode_VALID_def)
  {
    fix cid
    assume "ChaincodeHeaderExtension_ChaincodeId ex = Some cid"
    with f show "ChainCodeName r = ChaincodeID_Name cid"
      "ChainCodeVersion r = ChaincodeID_Version cid" by simp_all
  }
  fix e
  assume inner: "ChannelHeader_Type header = HeaderType_ENDORSER_TRANSACTION \<and>
    inner_stage_error c payload = Some e"
  from assms obtain r5 where "DecodeEventBlock_endorser c payload r5 = Inr r"
    using inner by (auto simp: DecodeEventBlock_stage5 [OF reach] split: sum.splits)
  from DecodeEventBlock_endorser_error [OF this] inner show "Error r = Some e" by simp
qed

text \<open>
  C3. For a transaction that is decoded (the header stages pass and a record is returned)
  at position \<open>idx\<close>, with the transaction-validation-flags array of the metadata covering
  that position, the field \<open>IsVaild\<close> of the record is the validation flag at that
  position: it is true exactly when the byte there is the valid code.
\<close>

theorem IsVaild_is_validation_flag:
  assumes "reaches_stage5 c pl perr payload header ex"
    and "DecodeEventBlock c pl blockNum idx metadata = Inr r"
    and "at_index metadata BlockMetadataIndex_TRANSACTIONS_FILTER = Inr flags"
    and "0 \<le> idx" and "idx < int (length flags)"
  shows "IsVaild r = (flags ! nat idx = TxValidationCode_VALID)"
  using DecodeEventBlock_stage5_fields [OF assms(1,2)] assms(3)
  by (auto simp: at_index_def BlockMetadataIndex_TRANSACTIONS_FILTER_def
      TxValidationCode_VALID_def split: if_splits)

text \<open>
  C4. The claim: when the envelope unmarshals and the payload does not, the decoder
  records the error, goes on through the remaining stages with an empty payload and
  still returns a record. The code does not do this. Line 149 records the error and
  goes on, but line 152 then reads \<^verbatim>\<open>payload.Header.ChannelHeader\<close>; when the failed
  unmarshal has left no header in the payload (an empty payload has none), this is a nil
  pointer dereference and no record is returned.
\<close>

theorem DecodeEventBlock_payload_failure_panics:
  assumes "Unmarshal_Envelope c pl = (None, envelope)"
    and "Unmarshal_Payload c (Envelope_Payload envelope) = (Some err, payload)"
    and "Payload_Header payload = None"
  shows "DecodeEventBlock c pl blockNum idx metadata = Inl NilDereference"
  using assms by (simp add: DecodeEventBlock_def)

text \<open>
  C9. When the decoder reaches stage 5 and returns a record, the status is read from
  position 2 of the metadata, which is the position of the transaction-validation-flags
  array; so the status is the validation flag at \<open>idx\<close>, widened to 32 bits, and the
  record is valid exactly when its status is the valid code 0.
\<close>

theorem Status_is_validation_flag:
  assumes "reaches_stage5 c pl perr payload header ex"
    and "DecodeEventBlock c pl blockNum idx metadata = Inr r"
  shows "BlockMetadataIndex_TRANSACTIONS_FILTER = 2 \<and>
         (\<exists>flags. at_index metadata BlockMetadataIndex_TRANSACTIONS_FILTER = Inr flags \<and>
            0 \<le> idx \<and> idx < int (length flags) \<and>
            Flag flags idx = Inr (flags ! nat idx) \<and>
            Status r = ucast (flags ! nat idx)) \<and>
         (IsVaild r \<longleftrightarrow> Status r = ucast TxValidationCode_VALID)"
  using DecodeEventBlock_stage5_fields [OF assms]
  by (simp add: at_index_def Flag_def BlockMetadataIndex_TRANSACTIONS_FILTER_def
      TxValidationCode_VALID_def ucast_byte_eq_0)

text \<open>
  C10. For an endorser transaction on which every unmarshal of the endorser branch
  succeeds (and no pointer on the way is nil), the record has exactly one event: the
  name and payload of the unmarshalled chaincode event. The test \<^verbatim>\<open>ccEvent != nil\<close> of
  line 222 never fails, so this holds also when the transaction emitted no event: the
  unmarshalled event is then the zero message and the entry has an empty name and an
  empty payload.
\<close>

theorem CCEvents_exactly_one:
  assumes "reaches_stage5 c pl perr payload header ex"
    and "ChannelHeader_Type header = HeaderType_ENDORSER_TRANSACTION"
    and "Unmarshal_Transaction c (Payload_Data payload) = (None, tx)"
    and "Transaction_Actions tx = action0 # others"
    and "Unmarshal_ChaincodeActionPayload c (TransactionAction_Payload action0) = (None, cap)"
    and "Unmarshal_ChaincodeProposalPayload c
           (ChaincodeActionPayload_ChaincodeProposalPayload cap) = (None, cpp)"
    and "Unmarshal_ChaincodeInvocationSpec c (ChaincodeProposalPayload_Input cpp) = (None, cis)"
    and "ChaincodeActionPayload_Action cap = Some endorsed"
    and "Unmarshal_ProposalResponsePayload c
           (ChaincodeEndorsedAction_ProposalResponsePayload endorsed) = (None, prp)"
    and "Unmarshal_ChaincodeAction c (ProposalResponsePayload_Extension prp) = (None, ca)"
    and "Unmarshal_ChaincodeEvent c (ChaincodeAction_Events ca) = (None, ccEvent)"
    and "DecodeEventBlock c pl blockNum idx metadata = Inr r"
  shows "CCEvents r = [\<lparr>EventName = ChaincodeEvent_EventName ccEvent,
                        EventPayload = ChaincodeEvent_Payload ccEvent\<rparr>] \<and>
         length (CCEvents r) = 1 \<and>
         (ChaincodeEvent_EventName ccEvent = [] \<and> ChaincodeEvent_Payload ccEvent = [] \<longrightarrow>
            CCEvents r = [\<lparr>EventName = [], EventPayload = []\<rparr>])"
proof -
  from assms(12) obtain r5 where
    base: "DecodeEventBlock_base (BlockEventResponse_zero\<lparr>Error := perr\<rparr>)
             blockNum idx metadata header ex = Inr r5"
    and rest: "DecodeEventBlock_endorser c payload r5 = Inr r"
    using assms(2) by (auto simp: DecodeEventBlock_stage5 [OF assms(1)] split: sum.splits)
  from DecodeEventBlock_base_Inr [OF base] have "CCEvents r5 = []"
    by (auto simp: BlockEventResponse_zero_def)
  with rest assms(3-11) show ?thesis
    by (auto simp: DecodeEventBlock_endorser_def at_index_def Let_def
        split: option.splits Option.bind_splits)
qed

subsection \<open>The claims about DecodeEventBlock on the sample inputs\<close>

theorem DecodeEventBlock_zero_actions_panics_witness:
  "DecodeEventBlock sample_codec envelope_zero 7 0 sample_metadata = Inl IndexOutOfRange \<and>
   readBlock sample_codec
     [Inr (block_event (sample_block [envelope_zero, envelope_full])), Inl io_EOF]
     new_eventHub [] = (Panicked IndexOutOfRange, new_eventHub, [])"
proof -
  have tx: "Unmarshal_Transaction sample_codec
      (Payload_Data \<lparr>Payload_Header = Some \<lparr>Header_ChannelHeader = sample_channelHeader2\<rparr>,
         Payload_Data = []\<rparr>) = (None, \<lparr>Transaction_Actions = []\<rparr>)"
    by (simp add: sample_codec_def from_table_def sample_bytes)
  have ty: "ChannelHeader_Type sample_header2 = HeaderType_ENDORSER_TRANSACTION"
    by (simp add: sample_header2_def HeaderType_ENDORSER_TRANSACTION_def)
  have zero: "DecodeEventBlock sample_codec envelope_zero 7 0 sample_metadata =
      Inl IndexOutOfRange"
    by (rule DecodeEventBlock_zero_actions_panics [OF sample_zero_reaches ty tx]) simp
  then show ?thesis
    by (simp add: block_event_def sample_block_def)
qed

theorem DecodeEventBlock_error_and_fields_witness:
  "outer_stage_error sample_codec envelope_corrupt = Some (Err ''unexpected EOF'') \<and>
   DecodeEventBlock sample_codec envelope_corrupt 7 1 sample_metadata =
     Inr (BlockEventResponse_zero\<lparr>Error := Some (Err ''unexpected EOF'')\<rparr>) \<and>
   inner_stage_error sample_codec
     \<lparr>Payload_Header = Some \<lparr>Header_ChannelHeader = sample_channelHeader\<rparr>,
      Payload_Data = [0xff]\<rparr> = Some (Err ''unexpected EOF'') \<and>
   (\<exists>r. DecodeEventBlock sample_codec envelope_badtx 7 1 sample_metadata = Inr r \<and>
        BlockHeight r = 7 \<and> TxIndex r = 1 \<and> TxID r = ''tx1'' \<and> ChannelName r = ''ch1'' \<and>
        ChainCodeName r = ''cc'' \<and> ChainCodeVersion r = ''1.0'' \<and> Status r = 11 \<and>
        IsVaild r = False \<and> Error r = Some (Err ''unexpected EOF''))"
proof -
  let ?bad = "\<lparr>Error = Some (Err ''unexpected EOF''), IsVaild = False, BlockHeight = 7,
     TxIndex = 1, TxID = ''tx1'', ChannelName = ''ch1'', ChainCodeName = ''cc'',
     ChainCodeVersion = ''1.0'', Status = 11, ChainCodeInput = [], CCEvents = []\<rparr>"
  have outer: "outer_stage_error sample_codec envelope_corrupt = Some (Err ''unexpected EOF'')"
    by (simp add: sample_run)
  have inner: "inner_stage_error sample_codec
     \<lparr>Payload_Header = Some \<lparr>Header_ChannelHeader = sample_channelHeader\<rparr>,
      Payload_Data = [0xff]\<rparr> = Some (Err ''unexpected EOF'')"
    by (simp add: sample_run)
  have ty: "ChannelHeader_Type sample_header = HeaderType_ENDORSER_TRANSACTION"
    by (simp add: sample_header_def HeaderType_ENDORSER_TRANSACTION_def)
  from DecodeEventBlock_error_and_fields
    [OF sample_corrupt_decoded [of 7 1 sample_metadata], THEN conjunct1] outer
  have c1: "BlockEventResponse_zero\<lparr>Error := Some (Err ''unexpected EOF'')\<rparr> =
      BlockEventResponse_zero\<lparr>Error := Some (Err ''unexpected EOF'')\<rparr>"
    by blast
  from DecodeEventBlock_error_and_fields [OF sample_badtx_decoded, THEN conjunct2]
    sample_badtx_reaches inner ty
  have c2: "BlockHeight ?bad = 7 \<and> TxIndex ?bad = 1 \<and> Error ?bad = Some (Err ''unexpected EOF'')"
    by blast
  show ?thesis
    using outer inner c1 c2 sample_corrupt_decoded [of 7 1 sample_metadata] sample_badtx_decoded
    by simp
qed

theorem IsVaild_is_validation_flag_witness:
  "DecodeEventBlock sample_codec envelope_full 7 0 sample_metadata = Inr sample_full_record \<and>
   at_index sample_metadata BlockMetadataIndex_TRANSACTIONS_FILTER = Inr [0, 11] \<and>
   IsVaild sample_full_record = ([0, 11 :: byte] ! nat 0 = TxValidationCode_VALID)"
proof -
  have flags: "at_index sample_metadata BlockMetadataIndex_TRANSACTIONS_FILTER = Inr [0, 11]"
    by (simp add: at_index_def sample_metadata_def BlockMetadataIndex_TRANSACTIONS_FILTER_def)
  from IsVaild_is_validation_flag [OF sample_full_reaches sample_full_decoded flags]
  have "IsVaild sample_full_record = ([0, 11 :: byte] ! nat 0 = TxValidationCode_VALID)"
    by simp
  with flags sample_full_decoded show ?thesis by simp
qed

theorem DecodeEventBlock_payload_failure_panics_witness:
  "Unmarshal_Envelope sample_codec envelope_badpayload = (None, \<lparr>Envelope_Payload = [0xff]\<rparr>) \<and>
   Unmarshal_Payload sample_codec [0xff] =
     (Some (Err ''unexpected EOF''), \<lparr>Payload_Header = None, Payload_Data = []\<rparr>) \<and>
   DecodeEventBlock sample_codec envelope_badpayload 7 0 sample_metadata = Inl NilDereference"
proof -
  have env: "Unmarshal_Envelope sample_codec envelope_badpayload =
      (None, \<lparr>Envelope_Payload = [0xff]\<rparr>)"
    by (simp add: sample_codec_def from_table_def sample_bytes)
  have pay: "Unmarshal_Payload sample_codec (Envelope_Payload \<lparr>Envelope_Payload = [0xff]\<rparr>) =
      (Some (Err ''unexpected EOF''), \<lparr>Payload_Header = None, Payload_Data = []\<rparr>)"
    by (simp add: sample_codec_def from_table_def sample_bytes)
  from DecodeEventBlock_payload_failure_panics [OF env pay, of 7 0 sample_metadata]
  have "DecodeEventBlock sample_codec envelope_badpayload 7 0 sample_metadata =
      Inl NilDereference" by simp
  with env pay show ?thesis by simp
qed

theorem Status_is_validation_flag_witness:
  "(\<exists>r. DecodeEventBlock sample_codec envelope_badtx 7 1 sample_metadata = Inr r \<and>
        Status r = 11 \<and> IsVaild r = False) \<and>
   at_index sample_metadata 2 = Inr [0, 11] \<and>
   IsVaild sample_full_record \<and> Status sample_full_record = 0"
proof -
  let ?bad = "\<lparr>Error = Some (Err ''unexpected EOF''), IsVaild = False, BlockHeight = 7,
     TxIndex = 1, TxID = ''tx1'', ChannelName = ''ch1'', ChainCodeName = ''cc'',
     ChainCodeVersion = ''1.0'', Status = 11, ChainCodeInput = [], CCEvents = []\<rparr>"
  from Status_is_validation_flag [OF sample_badtx_reaches sample_badtx_decoded]
  have bad: "IsVaild ?bad \<longleftrightarrow> Status ?bad = ucast TxValidationCode_VALID" by blast
  from Status_is_validation_flag [OF sample_full_reaches sample_full_decoded]
  have full: "IsVaild sample_full_record \<longleftrightarrow>
      Status sample_full_record = ucast TxValidationCode_VALID" by blast
  have "Status sample_full_record = 0" by (simp add: sample_full_record_def)
  with full have "IsVaild sample_full_record" by (simp add: TxValidationCode_VALID_def)
  with bad sample_badtx_decoded show ?thesis
    by (simp add: at_index_def sample_metadata_def sample_full_record_def)
qed

theorem CCEvents_exactly_one_witness:
  "CCEvents sample_full_record =
     [\<lparr>EventName = ''event1'', EventPayload = [0x68, 0x65, 0x6c, 0x6c, 0x6f]\<rparr>] \<and>
   DecodeEventBlock sample_codec envelope_full 7 0 sample_metadata = Inr sample_full_record \<and>
   (\<exists>r. DecodeEventBlock sample_codec envelope_noevent 7 0 sample_metadata = Inr r \<and>
        CCEvents r = [\<lparr>EventName = [], EventPayload = []\<rparr>])"
proof -
  have ty: "ChannelHeader_Type sample_header = HeaderType_ENDORSER_TRANSACTION"
    by (simp add: sample_header_def HeaderType_ENDORSER_TRANSACTION_def)
  have full: "CCEvents sample_full_record =
     [\<lparr>EventName = ''event1'', EventPayload = [0x68, 0x65, 0x6c, 0x6c, 0x6f]\<rparr>]"
    using CCEvents_exactly_one [OF sample_full_reaches ty _ _ _ _ _ _ _ _ _ sample_full_decoded,
        of "\<lparr>Transaction_Actions = [\<lparr>TransactionAction_Payload = sample_actionPayload\<rparr>]\<rparr>"
           "\<lparr>TransactionAction_Payload = sample_actionPayload\<rparr>" "[]"
           "\<lparr>ChaincodeActionPayload_ChaincodeProposalPayload = sample_proposalPayload,
             ChaincodeActionPayload_Action =
               Some \<lparr>ChaincodeEndorsedAction_ProposalResponsePayload = sample_propResp\<rparr>\<rparr>"
           "\<lparr>ChaincodeProposalPayload_Input = sample_invocationSpec\<rparr>" _
           "\<lparr>ChaincodeEndorsedAction_ProposalResponsePayload = sample_propResp\<rparr>"
           "\<lparr>ProposalResponsePayload_Extension = sample_action\<rparr>"
           "\<lparr>ChaincodeAction_Events = sample_event\<rparr>"
           "\<lparr>ChaincodeEvent_EventName = ''event1'',
             ChaincodeEvent_Payload = [0x68, 0x65, 0x6c, 0x6c, 0x6f]\<rparr>"]
    by (simp add: sample_codec_def from_table_def sample_bytes)
  have noev: "CCEvents
     \<lparr>Error = None, IsVaild = True, BlockHeight = 7, TxIndex = 0, TxID = ''tx1'',
      ChannelName = ''ch1'', ChainCodeName = ''cc'', ChainCodeVersion = ''1.0'', Status = 0,
      ChainCodeInput = [[0x61], [0x62], [0x32, 0x30]],
      CCEvents = [\<lparr>EventName = [], EventPayload = []\<rparr>]\<rparr> =
     [\<lparr>EventName = [], EventPayload = []\<rparr>]"
    using CCEvents_exactly_one [OF sample_noevent_reaches ty _ _ _ _ _ _ _ _ _
        sample_noevent_decoded,
        of "\<lparr>Transaction_Actions =
              [\<lparr>TransactionAction_Payload = sample_actionPayload_noevent\<rparr>]\<rparr>"
           "\<lparr>TransactionAction_Payload = sample_actionPayload_noevent\<rparr>" "[]"
           "\<lparr>ChaincodeActionPayload_ChaincodeProposalPayload = sample_proposalPayload,
             ChaincodeActionPayload_Action =
               Some \<lparr>ChaincodeEndorsedAction_ProposalResponsePayload = []\<rparr>\<rparr>"
           "\<lparr>ChaincodeProposalPayload_Input = sample_invocationSpec\<rparr>" _
           "\<lparr>ChaincodeEndorsedAction_ProposalResponsePayload = []\<rparr>"
           "\<lparr>ProposalResponsePayload_Extension = []\<rparr>"
           "\<lparr>ChaincodeAction_Events = []\<rparr>"
           "\<lparr>ChaincodeEvent_EventName = [], ChaincodeEvent_Payload = []\<rparr>"]
    by (simp add: sample_codec_def from_table_def sample_bytes)
  from full noev sample_full_decoded sample_noevent_decoded show ?thesis by simp
qed

section \<open>The claims about the reader, registration and the listener\<close>

text \<open>
  C5, as amended. The claim: for every sequence of Block messages the reader delivers
  exactly one record per entry, in the order of the entries and of the blocks, and each
  record's block height is the block's number and its index the entry's position. The
  last part fails for an entry on which an outer stage fails: its record carries only
  the error (see the counterexample below). What holds: when the reader has worked
  through a sequence of messages without a panic, the records it has delivered are,
  one for one and in order, the decoder's records for the entries of the Block messages;
  each has the block's number and the entry's position, unless an outer stage failed on
  the entry, in which case it is the zero record with that error.
\<close>

theorem readBlock_one_record_per_entry:
  assumes "readBlock c (map Inr evs) e response = (Blocked, e', response')"
  shows "\<exists>rs. response' = response @ rs \<and>
     length rs = length (concat (map event_entries evs)) \<and>
     list_all2 (entry_record c) (concat (map event_entries evs)) rs"
proof -
  from readBlock_Blocked_records [OF assms] obtain rs where
    "response' = response @ rs"
    "list_all2 (entry_record c) (concat (map event_entries evs)) rs" by blast
  then show ?thesis by (auto dest: list_all2_lengthD)
qed

text \<open>
  How the loop returns. It returns only on a result of \<^verbatim>\<open>Recv\<close> that is an error,
  after the messages before it have been worked through: on \<^verbatim>\<open>io.EOF\<close> it sends
  nothing more; on any other error it sends exactly one record, the zero record with that
  error. In both it disconnects (closes the send side and the connection) and leaves the
  rest of the stream unread.
\<close>

lemma readBlock_returns_iff:
  "(readBlock c incoming e response = (Returned, e', response') \<longleftrightarrow>
     (\<exists>before err later mid. incoming = before @ Inl err # later \<and>
        readBlock c before e response = (Blocked, e, mid) \<and> e' = disconnect e \<and>
        response' = (if err = io_EOF then mid
                     else mid @ [BlockEventResponse_zero\<lparr>Error := Some err\<rparr>]))) \<and>
   connection_closed (disconnect e) \<and> client_sendClosed (disconnect e)"
proof (intro conjI iffI)
  assume "readBlock c incoming e response = (Returned, e', response')"
  then show "\<exists>before err later mid. incoming = before @ Inl err # later \<and>
        readBlock c before e response = (Blocked, e, mid) \<and> e' = disconnect e \<and>
        response' = (if err = io_EOF then mid
                     else mid @ [BlockEventResponse_zero\<lparr>Error := Some err\<rparr>])"
    by (rule readBlock_Returned_split)
next
  assume "\<exists>before err later mid. incoming = before @ Inl err # later \<and>
        readBlock c before e response = (Blocked, e, mid) \<and> e' = disconnect e \<and>
        response' = (if err = io_EOF then mid
                     else mid @ [BlockEventResponse_zero\<lparr>Error := Some err\<rparr>])"
  then obtain before err later mid where split: "incoming = before @ Inl err # later"
    and run: "readBlock c before e response = (Blocked, e, mid)"
    and out: "e' = disconnect e"
      "response' = (if err = io_EOF then mid
                    else mid @ [BlockEventResponse_zero\<lparr>Error := Some err\<rparr>])"
    by blast
  from readBlock_Blocked_append [OF run, of "Inl err # later"] split out
  show "readBlock c incoming e response = (Returned, e', response')" by simp
qed (simp_all add: disconnect_def)

text \<open>
  C6. The claim: the loop ends in exactly two ways, on end of input (it disconnects and
  sends no error record) and on any other read error (it sends exactly one record with
  only the error, then disconnects). The code does not do this: it has a third ending.
  When the reader has worked through the messages \<open>before\<close> and the next one is a Block
  message whose first entry makes the decoder panic, the loop ends by that panic. Only the
  records sent so far are on the channel, the hub is left as it was (nothing is closed),
  and whatever \<^verbatim>\<open>Recv\<close> would return next, an error or the end of input, is never read.
  The panics of the decoder are those of C1 (line 182) and C4 (line 152).
\<close>

theorem readBlock_panic_is_third_ending:
  assumes "readBlock c before e response = (Blocked, e, mid)"
    and "Event_Event ev = Event_Block (Some blk)"
    and "Block_Metadata blk = Some md" and "Block_Data blk = Some d"
    and "Block_Header blk = Some h"
    and "BlockData_Data d = bd # rest"
    and "DecodeEventBlock c bd (BlockHeader_Number h) 0 (BlockMetadata_Metadata md) = Inl p"
  shows "readBlock c (before @ Inr ev # later) e response = (Panicked p, e, mid)"
proof -
  have "readBlock c (Inr ev # later) e mid = (Panicked p, e, mid)"
    using assms(2-7) by simp
  with readBlock_Blocked_append [OF assms(1), of "Inr ev # later"] show ?thesis by simp
qed

text \<open>
  C7. After a successful registration, exactly two calls have left the process: one call
  of \<^verbatim>\<open>Sign\<close> and then one send. The bytes given to \<^verbatim>\<open>Sign\<close> (with the identity's
  private key) are the \<^verbatim>\<open>EventBytes\<close> of the message sent, the signature sent is what
  \<^verbatim>\<open>Sign\<close> returned for them, and they are the serialised request for block events with
  the creator.
\<close>

theorem register_signs_what_it_sends:
  assumes "register n mspId identity crypto = (Inr None, cs)"
  shows "\<exists>ident evtBytes sb creator.
     identity = Some ident \<and>
     cs = [Sign_call evtBytes (Identity_PrivateKey ident),
           Send_call \<lparr>SignedEvent_Signature = sb, SignedEvent_EventBytes = evtBytes\<rparr>] \<and>
     crypto evtBytes (Identity_PrivateKey ident) = Inr sb \<and>
     client_Send n \<lparr>SignedEvent_Signature = sb, SignedEvent_EventBytes = evtBytes\<rparr> = None \<and>
     Marshal_Event n
       \<lparr>Event_Event = Event_Register
          \<lparr>Register_Events = [\<lparr>Interest_EventType = EventType_BLOCK\<rparr>]\<rparr>,
        Event_Creator = creator\<rparr> = Inr evtBytes"
  using assms
  by (auto simp: register_def Let_def split: option.splits sum.splits)

text \<open>
  C8. When connecting fails, or connecting succeeds and registering fails, the listener
  returns that error to its caller and has started no reader: nothing is ever delivered
  on the channel.
\<close>

theorem newEventListener_failure_starts_no_reader:
  assumes "fst (connect n p new_eventHub) = Inr (Some err) \<or>
     (fst (connect n p new_eventHub) = Inr None \<and>
      fst (register n mspId identity crypto) = Inr (Some err))"
  shows "returned (newEventListener c n response crypto identity mspId p) = Inr (Some err) \<and>
     reader (newEventListener c n response crypto identity mspId p) = None \<and>
     delivered response (newEventListener c n response crypto identity mspId p) = response"
  using assms
  by (auto simp: newEventListener_def delivered_def split: prod.splits sum.splits option.splits)

subsection \<open>The reader and the listener on the sample stream\<close>

lemma sample_stream_Blocked:
  "readBlock sample_codec
     [Inr (block_event (sample_block [envelope_full, envelope_corrupt]))] new_eventHub [] =
   (Blocked, new_eventHub,
    [sample_full_record, BlockEventResponse_zero\<lparr>Error := Some (Err ''unexpected EOF'')\<rparr>])"
  by (simp add: block_event_def sample_block_def sample_full_decoded sample_corrupt_decoded)

text \<open>
  The counterexample to C5 as stated: block number 7 holds a well-formed transaction at
  position 0 and bytes that are no envelope at position 1. Two records are delivered; the
  second has block height 0 and index 0, not 7 and 1.
\<close>

theorem readBlock_outer_failure_counterexample:
  "readBlock sample_codec
     [Inr \<lparr>Event_Event = Event_Block (Some
        \<lparr>Block_Header = Some \<lparr>BlockHeader_Number = 7\<rparr>,
         Block_Data = Some \<lparr>BlockData_Data = [envelope_full, envelope_corrupt]\<rparr>,
         Block_Metadata = Some \<lparr>BlockMetadata_Metadata = sample_metadata\<rparr>\<rparr>),
       Event_Creator = []\<rparr>] new_eventHub [] =
   (Blocked, new_eventHub,
    [sample_full_record, BlockEventResponse_zero\<lparr>Error := Some (Err ''unexpected EOF'')\<rparr>]) \<and>
   BlockHeight (BlockEventResponse_zero\<lparr>Error := Some (Err ''unexpected EOF'')\<rparr>) \<noteq> 7 \<and>
   TxIndex (BlockEventResponse_zero\<lparr>Error := Some (Err ''unexpected EOF'')\<rparr>) \<noteq> 1"
  using sample_stream_Blocked
  by (simp add: block_event_def sample_block_def BlockEventResponse_zero_def)

theorem readBlock_one_record_per_entry_witness:
  "readBlock sample_codec
     (map Inr [block_event (sample_block [envelope_full, envelope_corrupt])]) new_eventHub [] =
   (Blocked, new_eventHub,
    [sample_full_record, BlockEventResponse_zero\<lparr>Error := Some (Err ''unexpected EOF'')\<rparr>]) \<and>
   concat (map event_entries [block_event (sample_block [envelope_full, envelope_corrupt])]) =
     [(envelope_full, 7, 0, sample_metadata), (envelope_corrupt, 7, 1, sample_metadata)] \<and>
   list_all2 (entry_record sample_codec)
     [(envelope_full, 7, 0, sample_metadata), (envelope_corrupt, 7, 1, sample_metadata)]
     [sample_full_record, BlockEventResponse_zero\<lparr>Error := Some (Err ''unexpected EOF'')\<rparr>]"
proof -
  have run: "readBlock sample_codec
     (map Inr [block_event (sample_block [envelope_full, envelope_corrupt])]) new_eventHub [] =
   (Blocked, new_eventHub,
    [sample_full_record, BlockEventResponse_zero\<lparr>Error := Some (Err ''unexpected EOF'')\<rparr>])"
    using sample_stream_Blocked by simp
  have entries:
    "concat (map event_entries [block_event (sample_block [envelope_full, envelope_corrupt])]) =
     [(envelope_full, 7, 0, sample_metadata), (envelope_corrupt, 7, 1, sample_metadata)]"
    by (simp add: event_entries_def block_entries_def block_event_def sample_block_def
        enumerate_simps)
  from readBlock_one_record_per_entry [OF run] entries run show ?thesis by simp
qed

lemma sample_stream_returns:
  "readBlock sample_codec
     [Inr (block_event (sample_block [envelope_full, envelope_corrupt])), Inl io_EOF]
     new_eventHub [] =
   (Returned, disconnect new_eventHub,
    [sample_full_record, BlockEventResponse_zero\<lparr>Error := Some (Err ''unexpected EOF'')\<rparr>]) \<and>
   readBlock sample_codec
     [Inr (block_event (sample_block [envelope_full, envelope_corrupt])),
      Inl (Err ''transport is closing'')]
     new_eventHub [] =
   (Returned, disconnect new_eventHub,
    [sample_full_record, BlockEventResponse_zero\<lparr>Error := Some (Err ''unexpected EOF'')\<rparr>,
     BlockEventResponse_zero\<lparr>Error := Some (Err ''transport is closing'')\<rparr>]) \<and>
   connection_closed (disconnect new_eventHub)"
proof -
  let ?before = "[Inr (block_event (sample_block [envelope_full, envelope_corrupt]))]"
  let ?mid = "[sample_full_record,
    BlockEventResponse_zero\<lparr>Error := Some (Err ''unexpected EOF'')\<rparr>]"
  have eof: "readBlock sample_codec (?before @ Inl io_EOF # []) new_eventHub [] =
      (Returned, disconnect new_eventHub, ?mid)"
  proof (rule readBlock_returns_iff [THEN conjunct1, THEN iffD2])
    show "\<exists>before err later mid. ?before @ Inl io_EOF # [] = before @ Inl err # later \<and>
        readBlock sample_codec before new_eventHub [] = (Blocked, new_eventHub, mid) \<and>
        disconnect new_eventHub = disconnect new_eventHub \<and>
        ?mid = (if err = io_EOF then mid
                else mid @ [BlockEventResponse_zero\<lparr>Error := Some err\<rparr>])"
      by (rule exI [of _ ?before], rule exI [of _ io_EOF], rule exI [of _ "[]"],
          rule exI [of _ ?mid]) (use sample_stream_Blocked in simp)
  qed
  let ?err = "Err ''transport is closing''"
  have err: "readBlock sample_codec (?before @ Inl ?err # []) new_eventHub [] =
      (Returned, disconnect new_eventHub,
       ?mid @ [BlockEventResponse_zero\<lparr>Error := Some ?err\<rparr>])"
  proof (rule readBlock_returns_iff [THEN conjunct1, THEN iffD2])
    show "\<exists>before err later mid. ?before @ Inl ?err # [] = before @ Inl err # later \<and>
        readBlock sample_codec before new_eventHub [] = (Blocked, new_eventHub, mid) \<and>
        disconnect new_eventHub = disconnect new_eventHub \<and>
        ?mid @ [BlockEventResponse_zero\<lparr>Error := Some ?err\<rparr>] =
          (if err = io_EOF then mid
           else mid @ [BlockEventResponse_zero\<lparr>Error := Some err\<rparr>])"
      by (rule exI [of _ ?before], rule exI [of _ ?err], rule exI [of _ "[]"],
          rule exI [of _ ?mid]) (use sample_stream_Blocked in simp)
  qed
  from eof err show ?thesis by (simp add: disconnect_def)
qed

lemma sample_badpayload_decoded:
  "DecodeEventBlock sample_codec envelope_badpayload 7 0 sample_metadata = Inl NilDereference"
  by (simp add: sample_run sample_metadata_def)

theorem readBlock_panic_is_third_ending_witness:
  "readBlock sample_codec
     [Inr (block_event (sample_block [envelope_full, envelope_corrupt])),
      Inr (block_event (sample_block [envelope_zero, envelope_full])),
      Inl (Err ''transport is closing'')]
     new_eventHub [] =
   (Panicked IndexOutOfRange, new_eventHub,
    [sample_full_record, BlockEventResponse_zero\<lparr>Error := Some (Err ''unexpected EOF'')\<rparr>]) \<and>
   readBlock sample_codec
     [Inr (block_event (sample_block [envelope_badpayload])), Inl io_EOF]
     new_eventHub [] =
   (Panicked NilDereference, new_eventHub, []) \<and>
   \<not> connection_closed new_eventHub \<and> \<not> client_sendClosed new_eventHub"
proof -
  have ev: "\<And>entries. Event_Event (block_event (sample_block entries)) =
      Event_Block (Some (sample_block entries))"
    by (simp add: block_event_def)
  have md: "\<And>entries. Block_Metadata (sample_block entries) =
      Some \<lparr>BlockMetadata_Metadata = sample_metadata\<rparr>"
    and d: "\<And>entries. Block_Data (sample_block entries) =
      Some \<lparr>BlockData_Data = entries\<rparr>"
    and h: "\<And>entries. Block_Header (sample_block entries) =
      Some \<lparr>BlockHeader_Number = 7\<rparr>"
    by (simp_all add: sample_block_def)
  have zero: "DecodeEventBlock sample_codec envelope_zero
      (BlockHeader_Number \<lparr>BlockHeader_Number = 7\<rparr>) 0
      (BlockMetadata_Metadata \<lparr>BlockMetadata_Metadata = sample_metadata\<rparr>) =
      Inl IndexOutOfRange"
    using sample_zero_decoded by simp
  have bad: "DecodeEventBlock sample_codec envelope_badpayload
      (BlockHeader_Number \<lparr>BlockHeader_Number = 7\<rparr>) 0
      (BlockMetadata_Metadata \<lparr>BlockMetadata_Metadata = sample_metadata\<rparr>) =
      Inl NilDereference"
    using sample_badpayload_decoded by simp
  have start: "readBlock sample_codec [] new_eventHub [] = (Blocked, new_eventHub, [])"
    by simp
  from readBlock_panic_is_third_ending [OF sample_stream_Blocked ev md d h _ zero,
      where rest = "[envelope_full]" and later = "[Inl (Err ''transport is closing'')]"]
  have one: "readBlock sample_codec
     ([Inr (block_event (sample_block [envelope_full, envelope_corrupt]))] @
      Inr (block_event (sample_block [envelope_zero, envelope_full])) #
      [Inl (Err ''transport is closing'')])
     new_eventHub [] =
   (Panicked IndexOutOfRange, new_eventHub,
    [sample_full_record, BlockEventResponse_zero\<lparr>Error := Some (Err ''unexpected EOF'')\<rparr>])"
    by simp
  from readBlock_panic_is_third_ending [OF start ev md d h _ bad,
      where rest = "[]" and later = "[Inl io_EOF]"]
  have two: "readBlock sample_codec
     ([] @ Inr (block_event (sample_block [envelope_badpayload])) # [Inl io_EOF])
     new_eventHub [] = (Panicked NilDereference, new_eventHub, [])"
    by simp
  from one two show ?thesis by (simp add: new_eventHub_def)
qed

theorem register_signs_what_it_sends_witness:
  "register sample_net ''Org1MSP'' (Some (sample_identity 42)) sample_crypto =
     (Inr None,
      [Sign_call [0x0a, 7, 0x2d, 0x30, 0x82] 42,
       Send_call \<lparr>SignedEvent_Signature = [0x82, 0x30, 0x2d, 7, 0x0a],
                  SignedEvent_EventBytes = [0x0a, 7, 0x2d, 0x30, 0x82]\<rparr>]) \<and>
   sample_crypto [0x0a, 7, 0x2d, 0x30, 0x82] 42 = Inr [0x82, 0x30, 0x2d, 7, 0x0a]"
proof -
  have run: "register sample_net ''Org1MSP'' (Some (sample_identity 42)) sample_crypto =
     (Inr None,
      [Sign_call [0x0a, 7, 0x2d, 0x30, 0x82] 42,
       Send_call \<lparr>SignedEvent_Signature = [0x82, 0x30, 0x2d, 7, 0x0a],
                  SignedEvent_EventBytes = [0x0a, 7, 0x2d, 0x30, 0x82]\<rparr>])"
    by (simp add: register_def sample_net_def sample_identity_def sample_crypto_def)
  from register_signs_what_it_sends [OF run]
  have "sample_crypto [0x0a, 7, 0x2d, 0x30, 0x82] 42 = Inr [0x82, 0x30, 0x2d, 7, 0x0a]"
    by (auto simp: sample_identity_def)
  with run show ?thesis by simp
qed

theorem newEventListener_failure_starts_no_reader_witness:
  "fst (connect sample_net (Some (sample_peer ''nowhere:7053'')) new_eventHub) =
     Inr (Some (Err ''context deadline exceeded'')) \<and>
   reader (newEventListener sample_codec sample_net [] sample_crypto
     (Some (sample_identity 42)) ''Org1MSP'' (Some (sample_peer ''nowhere:7053''))) = None \<and>
   fst (connect sample_net (Some (sample_peer ''peer0:7053'')) new_eventHub) = Inr None \<and>
   fst (register sample_net ''Org1MSP'' (Some (sample_identity 7)) sample_crypto) =
     Inr (Some (Err ''unsupported key'')) \<and>
   returned (newEventListener sample_codec sample_net [] sample_crypto
     (Some (sample_identity 7)) ''Org1MSP'' (Some (sample_peer ''peer0:7053''))) =
     Inr (Some (Err ''unsupported key'')) \<and>
   delivered [] (newEventListener sample_codec sample_net [] sample_crypto
     (Some (sample_identity 7)) ''Org1MSP'' (Some (sample_peer ''peer0:7053''))) = []"
proof -
  have dial: "fst (connect sample_net (Some (sample_peer ''nowhere:7053'')) new_eventHub) =
     Inr (Some (Err ''context deadline exceeded''))"
    by (simp add: connect_def sample_net_def sample_peer_def)
  have conn: "fst (connect sample_net (Some (sample_peer ''peer0:7053'')) new_eventHub) =
     Inr None"
    by (simp add: connect_def sample_net_def sample_peer_def)
  have reg: "fst (register sample_net ''Org1MSP'' (Some (sample_identity 7)) sample_crypto) =
     Inr (Some (Err ''unsupported key''))"
    by (simp add: register_def sample_net_def sample_identity_def sample_crypto_def)
  from newEventListener_failure_starts_no_reader
    [of sample_net _ "Err ''context deadline exceeded''" "''Org1MSP''" "Some (sample_identity 42)"
       sample_crypto sample_codec "[]"] dial
  have a: "reader (newEventListener sample_codec sample_net [] sample_crypto
     (Some (sample_identity 42)) ''Org1MSP'' (Some (sample_peer ''nowhere:7053''))) = None"
    by blast
  from newEventListener_failure_starts_no_reader
    [of sample_net _ "Err ''unsupported key''" "''Org1MSP''" "Some (sample_identity 7)"
       sample_crypto sample_codec "[]"] conn reg
  have b: "returned (newEventListener sample_codec sample_net [] sample_crypto
     (Some (sample_identity 7)) ''Org1MSP'' (Some (sample_peer ''peer0:7053''))) =
     Inr (Some (Err ''unsupported key'')) \<and>
   delivered [] (newEventListener sample_codec sample_net [] sample_crypto
     (Some (sample_identity 7)) ''Org1MSP'' (Some (sample_peer ''peer0:7053''))) = []"
    by blast
  from dial conn reg a b show ?thesis by simp
qed


end
